theory Spec2Isabelle
  imports Complex_Main "HOL-Library.Char_ord" "HOL-Library.List_Lexorder"
    "HOL-Library.Multiset" "HOL-Library.Sublist"
begin

section \<open>Python values\<close>

text \<open>
  The scripts work on dictionaries decoded from JSON. A value of such a dictionary is
  one of Python's scalars; a decimal number (Python's \<open>float\<close>) is modelled as an exact
  rational, so sums and roundings are the mathematical ones. Nested arrays and objects do
  not occur in the fields the scripts read and are left out.
\<close>

datatype error = TypeError | ValueError | AttributeError | ZeroDivisionError | OverflowError

datatype pyval = PNone | PBool bool | PInt int | PFloat rat | PStr string

type_synonym dict = "(string \<times> pyval) list"

text \<open>\<open>d.get(k)\<close> and \<open>d.get(k, default)\<close>: a key bound to \<open>null\<close> yields \<open>None\<close>, not
  the default.\<close>

definition get :: "dict \<Rightarrow> string \<Rightarrow> pyval" where
  "get d k = (case map_of d k of None \<Rightarrow> PNone | Some v \<Rightarrow> v)"

definition get_default :: "dict \<Rightarrow> string \<Rightarrow> pyval \<Rightarrow> pyval" where
  "get_default d k dflt = (case map_of d k of None \<Rightarrow> dflt | Some v \<Rightarrow> v)"

text \<open>Truth value of a Python object (\<open>if x\<close>, \<open>not x\<close>, \<open>x or y\<close>).\<close>

fun truthy :: "pyval \<Rightarrow> bool" where
  "truthy PNone = False"
| "truthy (PBool b) = b"
| "truthy (PInt n) = (n \<noteq> 0)"
| "truthy (PFloat x) = (x \<noteq> 0)"
| "truthy (PStr s) = (s \<noteq> [])"

definition py_or :: "pyval \<Rightarrow> pyval \<Rightarrow> pyval" where
  "py_or a b = (if truthy a then a else b)"

text \<open>The numeric value of a number; booleans are the integers 0 and 1.\<close>

fun num_of :: "pyval \<Rightarrow> rat option" where
  "num_of (PBool b) = Some (if b then 1 else 0)"
| "num_of (PInt n) = Some (of_int n)"
| "num_of (PFloat x) = Some x"
| "num_of _ = None"

fun str_of :: "pyval \<Rightarrow> string option" where
  "str_of (PStr s) = Some s"
| "str_of _ = None"

text \<open>Python's \<open>==\<close>, which decides membership in a \<open>set\<close>: numbers are equal by value,
  strings by content, \<open>None\<close> only to itself.\<close>

definition py_eq :: "pyval \<Rightarrow> pyval \<Rightarrow> bool" where
  "py_eq a b = (case (num_of a, num_of b) of
       (Some x, Some y) \<Rightarrow> x = y
     | (None, None) \<Rightarrow> a = b
     | _ \<Rightarrow> False)"

definition py_in :: "pyval \<Rightarrow> pyval set \<Rightarrow> bool" where
  "py_in x S = (\<exists>v\<in>S. py_eq x v)"

text \<open>
  \<open>list.sort(key=...)\<close>: a stable sort. Python orders strings with strings and numbers
  with numbers; every other comparison (with \<open>None\<close>, or a string with a number) raises
  \<open>TypeError\<close>. A list of at most one element is returned without any comparison; in a
  longer list every element is compared at least once, so one key outside the common
  class makes the call raise.
\<close>

definition the_str :: "pyval \<Rightarrow> string" where
  "the_str v = (case v of PStr s \<Rightarrow> s | _ \<Rightarrow> [])"

definition the_num :: "pyval \<Rightarrow> rat" where
  "the_num v = (case num_of v of Some x \<Rightarrow> x | None \<Rightarrow> 0)"

definition py_sort_by :: "('a \<Rightarrow> pyval) \<Rightarrow> 'a list \<Rightarrow> error + 'a list" where
  "py_sort_by key xs =
     (if length xs \<le> 1 then Inr xs
      else if list_all (\<lambda>x. str_of (key x) \<noteq> None) xs
        then Inr (sort_key (\<lambda>x. the_str (key x)) xs)
      else if list_all (\<lambda>x. num_of (key x) \<noteq> None) xs
        then Inr (sort_key (\<lambda>x. the_num (key x)) xs)
      else Inl TypeError)"

text \<open>The order a successful sort establishes on the keys.\<close>

definition key_le :: "pyval \<Rightarrow> pyval \<Rightarrow> bool" where
  "key_le a b = (case (str_of a, str_of b) of
       (Some s, Some t) \<Rightarrow> s \<le> t
     | _ \<Rightarrow> (case (num_of a, num_of b) of (Some x, Some y) \<Rightarrow> x \<le> y | _ \<Rightarrow> False))"

definition non_decreasing_by :: "('a \<Rightarrow> pyval) \<Rightarrow> 'a list \<Rightarrow> bool" where
  "non_decreasing_by key xs = sorted_wrt (\<lambda>a b. key_le (key a) (key b)) xs"

text \<open>\<open>round(x, n)\<close>: to \<open>n\<close> decimals, a tie to the even neighbour.\<close>

definition py_round :: "rat \<Rightarrow> nat \<Rightarrow> rat" where
  "py_round x n = (let y = x * 10 ^ n; f = \<lfloor>y\<rfloor>; d = y - of_int f in
     (if d < 1 / 2 then of_int f
      else if 1 / 2 < d then of_int (f + 1)
      else if even f then of_int f else of_int (f + 1)) / 10 ^ n)"

text \<open>\<open>s.replace(old, new)\<close> for a non-empty \<open>old\<close>: every occurrence, left to right,
  without overlap.\<close>

function py_replace :: "string \<Rightarrow> string \<Rightarrow> string \<Rightarrow> string" where
  "py_replace old new [] = []"
| "py_replace old new (c # cs) =
     (if old \<noteq> [] \<and> prefix old (c # cs)
      then new @ py_replace old new (drop (length old) (c # cs))
      else c # py_replace old new cs)"
  by pat_completeness auto
termination
  by (relation "measure (\<lambda>(old, new, s). length s)") auto


section \<open>webticker\_lib: timestamps\<close>

text \<open>
  Every \<open>datetime\<close> the scripts hold is timezone-aware and in UTC (the log timestamp is
  built with \<open>tzinfo=utc\<close>, a parsed one is passed through \<open>astimezone(utc)\<close>). It is
  modelled as the instant it denotes: microseconds since 1970-01-01T00:00:00Z.
\<close>

type_synonym datetime = int

definition HISTORY_VERSION :: int where
  "HISTORY_VERSION = 1"

text \<open>Year, month and day of a day number counted from 1970-01-01 (proleptic Gregorian
  calendar, as \<open>datetime\<close> uses it).\<close>

definition civil_from_days :: "int \<Rightarrow> int \<times> int \<times> int" where
  "civil_from_days days =
     (let z = days + 719468;
          era = z div 146097;
          doe = z mod 146097;
          yoe = (doe - doe div 1460 + doe div 36524 - doe div 146096) div 365;
          doy = doe - (365 * yoe + yoe div 4 - yoe div 100);
          mp = (5 * doy + 2) div 153;
          d = doy - (153 * mp + 2) div 5 + 1;
          m = (if mp < 10 then mp + 3 else mp - 9);
          y = yoe + era * 400 + (if m \<le> 2 then 1 else 0)
      in (y, m, d))"

definition digit :: "int \<Rightarrow> char" where
  "digit n = char_of (48 + n mod 10)"

definition dec2 :: "int \<Rightarrow> string" where
  "dec2 n = [digit (n div 10), digit n]"

definition dec4 :: "int \<Rightarrow> string" where
  "dec4 n = [digit (n div 1000), digit (n div 100), digit (n div 10), digit n]"

text \<open>\<open>datetime.isoformat()\<close> of a UTC datetime whose microsecond is 0.\<close>

definition datetime_isoformat :: "int \<Rightarrow> string" where
  "datetime_isoformat secs =
     (let sod = secs mod 86400 in
      case civil_from_days (secs div 86400) of (y, m, d) \<Rightarrow>
        dec4 y @ ''-'' @ dec2 m @ ''-'' @ dec2 d @ ''T'' @ dec2 (sod div 3600) @ '':''
          @ dec2 (sod mod 3600 div 60) @ '':'' @ dec2 (sod mod 60) @ ''+00:00'')"

text \<open>\<open>isoformat(value)\<close>: \<open>replace(microsecond=0)\<close> drops the microseconds of the
  instant, then the offset is written as \<open>Z\<close>.\<close>

definition isoformat :: "datetime \<Rightarrow> string" where
  "isoformat v = py_replace ''+00:00'' ''Z'' (datetime_isoformat (v div 1000000))"


section \<open>webticker\_lib: records and their serialization\<close>

text \<open>
  The dictionary \<open>normalize_trade\<close> returns has a fixed set of keys: the ticket is a
  string (\<open>str(...)\<close>), volume and profit are floats, \<open>closed_at\<close> is a datetime,
  \<open>opened_at\<close> a datetime or \<open>None\<close>; the other fields pass the log's values through.
  The ticket's type is a parameter because the trades read back from the history carry
  whatever the file holds there.
\<close>

record 'k norm_trade =
  ticket :: 'k
  symbol :: pyval
  volume :: rat
  profit :: rat
  order_type :: pyval
  comment :: pyval
  opened_at :: "datetime option"
  closed_at :: datetime
  tp_label :: pyval
  sl_label :: pyval

record snapshot =
  timestamp :: datetime
  balance :: rat
  equity :: rat
  floating :: rat

text \<open>On a normalized trade both \<open>isinstance(..., datetime)\<close> tests of
  \<open>serialize_trade\<close> hold for a datetime and fail for \<open>None\<close>, and \<open>float(...)\<close> of a
  float is the float.\<close>

definition serialize_trade :: "string norm_trade \<Rightarrow> dict" where
  "serialize_trade trade =
     [(''ticket'', PStr (ticket trade)),
      (''symbol'', symbol trade),
      (''volume'', PFloat (py_round (volume trade) 5)),
      (''profit'', PFloat (py_round (profit trade) 5)),
      (''order_type'', order_type trade),
      (''comment'', comment trade),
      (''opened_at'', (case opened_at trade of Some d \<Rightarrow> PStr (isoformat d) | None \<Rightarrow> PNone)),
      (''closed_at'', PStr (isoformat (closed_at trade))),
      (''tp_label'', tp_label trade),
      (''sl_label'', sl_label trade)]"

definition serialize_snapshot :: "snapshot \<Rightarrow> dict" where
  "serialize_snapshot snap =
     [(''timestamp'', PStr (isoformat (timestamp snap))),
      (''balance'', PFloat (py_round (balance snap) 2)),
      (''equity'', PFloat (py_round (equity snap) 2)),
      (''floating'', PFloat (py_round (floating snap) 2))]"


section \<open>TKB-WebTicker: merge\_history\<close>

text \<open>The history as \<open>load_history\<close> returns it: the entries are the JSON objects of the
  file, whatever they hold.\<close>

record history =
  version :: pyval
  trades :: "dict list"
  snapshots :: "dict list"

text \<open>
  The two loops of \<open>merge_history\<close>. The state of a loop is the set of keys seen, the
  list appended to and the flag \<open>appended\<close>.
\<close>

fun append_new_trades ::
  "pyval set \<Rightarrow> dict list \<Rightarrow> bool \<Rightarrow> string norm_trade list \<Rightarrow> pyval set \<times> dict list \<times> bool" where
  "append_new_trades existing_tickets acc appended [] = (existing_tickets, acc, appended)"
| "append_new_trades existing_tickets acc appended (trade # rest) =
     (let ticket = ticket trade in
      if ticket = [] \<or> py_in (PStr ticket) existing_tickets
      then append_new_trades existing_tickets acc appended rest
      else append_new_trades (insert (PStr ticket) existing_tickets)
             (acc @ [serialize_trade trade]) True rest)"

fun append_new_snapshots ::
  "pyval set \<Rightarrow> dict list \<Rightarrow> bool \<Rightarrow> snapshot list \<Rightarrow> pyval set \<times> dict list \<times> bool" where
  "append_new_snapshots existing_snaps acc appended [] = (existing_snaps, acc, appended)"
| "append_new_snapshots existing_snaps acc appended (snap # rest) =
     (let serialized = serialize_snapshot snap;
          stamp = get serialized ''timestamp'' in
      if \<not> truthy stamp \<or> py_in stamp existing_snaps
      then append_new_snapshots existing_snaps acc appended rest
      else append_new_snapshots (insert stamp existing_snaps)
             (acc @ [serialized]) True rest)"

definition closed_at_key :: "dict \<Rightarrow> pyval" where
  "closed_at_key item = get_default item ''closed_at'' (PStr [])"

definition timestamp_key :: "dict \<Rightarrow> pyval" where
  "timestamp_key item = get_default item ''timestamp'' (PStr [])"

definition merge_history ::
  "history \<Rightarrow> string norm_trade list \<Rightarrow> snapshot list \<Rightarrow> error + history" where
  "merge_history h new_trades new_snapshots =
     (case append_new_trades (set (map (\<lambda>entry. get entry ''ticket'') (trades h)))
             (trades h) False new_trades of
        (_, ts, appended) \<Rightarrow>
     (case (if appended then py_sort_by closed_at_key ts else Inr ts) of
        Inl e \<Rightarrow> Inl e
      | Inr ts' \<Rightarrow>
     (case append_new_snapshots (set (map (\<lambda>entry. get entry ''timestamp'') (snapshots h)))
             (snapshots h) False new_snapshots of
        (_, ss, appended') \<Rightarrow>
     (case (if appended' then py_sort_by timestamp_key ss else Inr ss) of
        Inl e \<Rightarrow> Inl e
      | Inr ss' \<Rightarrow> Inr \<lparr>version = PInt HISTORY_VERSION, trades = ts', snapshots = ss'\<rparr>))))"


section \<open>Python library functions\<close>

text \<open>
  Three functions of Python's library are taken as parameters, since what they return
  depends on the interpreter's version and on the machine's time zone:
  \<open>datetime.fromisoformat(s).astimezone(timezone.utc)\<close> (no value: \<open>ValueError\<close>),
  \<open>float(s)\<close> of a string (no value: \<open>ValueError\<close>) and \<open>str(x)\<close> of a float.
\<close>

record pylib =
  fromisoformat :: "string \<Rightarrow> datetime option"
  float_of_str :: "string \<Rightarrow> rat option"
  repr_float :: "rat \<Rightarrow> string"

function dec_nat :: "nat \<Rightarrow> string" where
  "dec_nat n = (if n < 10 then [digit (int n)] else dec_nat (n div 10) @ [digit (int n)])"
  by pat_completeness auto
termination
  by (relation "measure id") auto

text \<open>\<open>str(x)\<close>.\<close>

fun py_str :: "pylib \<Rightarrow> pyval \<Rightarrow> string" where
  "py_str lib PNone = ''None''"
| "py_str lib (PBool b) = (if b then ''True'' else ''False'')"
| "py_str lib (PInt n) = (if n < 0 then ''-'' @ dec_nat (nat (- n)) else dec_nat (nat n))"
| "py_str lib (PFloat x) = repr_float lib x"
| "py_str lib (PStr s) = s"

text \<open>
  \<open>float(n)\<close> of an integer: the nearest double, a tie to the even one, and
  \<open>OverflowError\<close> beyond the range of the doubles. A double has 53 significant bits
  and is below \<open>2 ^ 1024\<close>. The rational is the exact value of the double.
\<close>

function bit_length :: "int \<Rightarrow> nat" where
  "bit_length n = (if n \<le> 0 then 0 else Suc (bit_length (n div 2)))"
  by pat_completeness auto
termination
  by (relation "measure nat") auto

definition float_of_int :: "int \<Rightarrow> error + rat" where
  "float_of_int n =
     (let m = \<bar>n\<bar>; e = bit_length m in
      if e \<le> 53 then Inr (of_int n)
      else
        (let shift = e - 53;
             q = m div 2 ^ shift;
             r = m mod 2 ^ shift;
             half = 2 ^ (shift - 1);
             q' = (if r < half then q else if half < r then q + 1
                   else if even q then q else q + 1);
             v = q' * 2 ^ shift
         in if 2 ^ 1024 \<le> v then Inl OverflowError
            else Inr (of_int (sgn n * v))))"

text \<open>\<open>float(x)\<close>. The floats of the model are the finite ones: \<open>nan\<close> and the
  infinities, which \<open>float\<close> of a text can also return, have no value here.\<close>

fun py_float :: "pylib \<Rightarrow> pyval \<Rightarrow> error + rat" where
  "py_float lib PNone = Inl TypeError"
| "py_float lib (PBool b) = Inr (if b then 1 else 0)"
| "py_float lib (PInt n) = float_of_int n"
| "py_float lib (PFloat x) = Inr x"
| "py_float lib (PStr s) = (case float_of_str lib s of None \<Rightarrow> Inl ValueError | Some x \<Rightarrow> Inr x)"

text \<open>\<open>s.strip()\<close>, \<open>s.lower()\<close>, \<open>s.upper()\<close> on ASCII text, and \<open>a in b\<close> on strings.\<close>

definition is_space :: "char \<Rightarrow> bool" where
  "is_space c = (c \<in> set [CHR '' '', CHR 0x09, CHR 0x0A, CHR 0x0B, CHR 0x0C, CHR 0x0D,
                            CHR 0x1C, CHR 0x1D, CHR 0x1E, CHR 0x1F])"

definition py_strip :: "string \<Rightarrow> string" where
  "py_strip s = dropWhile is_space (rev (dropWhile is_space (rev s)))"

definition py_lower :: "string \<Rightarrow> string" where
  "py_lower s = map (\<lambda>c. if CHR ''A'' \<le> c \<and> c \<le> CHR ''Z''
                           then char_of (of_char c + (32 :: nat)) else c) s"

definition py_upper :: "string \<Rightarrow> string" where
  "py_upper s = map (\<lambda>c. if CHR ''a'' \<le> c \<and> c \<le> CHR ''z''
                           then char_of (of_char c - (32 :: nat)) else c) s"


section \<open>webticker\_lib: the normalizer\<close>

text \<open>A payload of the log as \<open>load_state_entries\<close> returns it: the JSON object and,
  under \<open>_log_timestamp\<close>, the timestamp of its line.\<close>

record entry =
  payload :: dict
  log_timestamp :: datetime

text \<open>\<open>parse_iso_datetime\<close>: the text handed to \<open>fromisoformat\<close>, and the function. A
  true value that is not a string has no \<open>strip\<close>.\<close>

definition iso_text :: "string \<Rightarrow> string" where
  "iso_text s =
     (let cleaned = py_strip s
      in if suffix ''Z'' cleaned then py_replace ''Z'' ''+00:00'' cleaned else cleaned)"

definition parse_iso_datetime :: "pylib \<Rightarrow> pyval \<Rightarrow> error + datetime option" where
  "parse_iso_datetime lib v =
     (if \<not> truthy v then Inr None
      else case v of
        PStr s \<Rightarrow>
          (case fromisoformat lib (iso_text s) of
             None \<Rightarrow> Inl ValueError
           | Some d \<Rightarrow> Inr (Some d))
      | _ \<Rightarrow> Inl AttributeError)"

definition normalize_trade :: "pylib \<Rightarrow> entry \<Rightarrow> error + string norm_trade" where
  "normalize_trade lib e =
     (case parse_iso_datetime lib (get (payload e) ''closed_at'') of
        Inl err \<Rightarrow> Inl err
      | Inr parsed \<Rightarrow>
     (case parse_iso_datetime lib (get (payload e) ''opened_at'') of
        Inl err \<Rightarrow> Inl err
      | Inr opened \<Rightarrow>
     (case py_float lib (get_default (payload e) ''volume'' (PFloat 0)) of
        Inl err \<Rightarrow> Inl err
      | Inr vol \<Rightarrow>
     (case py_float lib (get_default (payload e) ''profit'' (PFloat 0)) of
        Inl err \<Rightarrow> Inl err
      | Inr prof \<Rightarrow>
        Inr \<lparr>ticket = py_str lib (get (payload e) ''ticket''),
             symbol = get_default (payload e) ''symbol'' (PStr ''UNKNOWN''),
             volume = vol,
             profit = prof,
             order_type = py_or (py_or (get (payload e) ''order_type'')
                                       (get (payload e) ''direction''))
                                (get (payload e) ''side''),
             comment = py_or (get (payload e) ''comment'') (get (payload e) ''label''),
             opened_at = opened,
             closed_at = (case parsed of Some d \<Rightarrow> d | None \<Rightarrow> log_timestamp e),
             tp_label = get (payload e) ''tp_label'',
             sl_label = get (payload e) ''sl_label''\<rparr>))))"

definition normalize_snapshot :: "pylib \<Rightarrow> entry \<Rightarrow> error + snapshot" where
  "normalize_snapshot lib e =
     (case parse_iso_datetime lib (get (payload e) ''timestamp'') of
        Inl err \<Rightarrow> Inl err
      | Inr parsed \<Rightarrow>
     (case py_float lib (get_default (payload e) ''balance'' (PFloat 0)) of
        Inl err \<Rightarrow> Inl err
      | Inr bal \<Rightarrow>
     (case py_float lib (get_default (payload e) ''equity'' (PFloat 0)) of
        Inl err \<Rightarrow> Inl err
      | Inr eq \<Rightarrow>
     (case py_float lib (get_default (payload e) ''floating'' (PFloat 0)) of
        Inl err \<Rightarrow> Inl err
      | Inr flt \<Rightarrow>
        Inr \<lparr>timestamp = (case parsed of Some d \<Rightarrow> d | None \<Rightarrow> log_timestamp e),
             balance = bal, equity = eq, floating = flt\<rparr>))))"


section \<open>TKB-WebTicker: aggregation\<close>

text \<open>
  A trade as \<open>_materialize_trades\<close> returns it: the keys of a normalized trade and
  \<open>exit_reason\<close>; \<open>closed_at\<close> is a datetime, \<open>profit\<close> and \<open>volume\<close> are floats, and
  every key is present, so that \<open>trade.get(key, default)\<close> is the field.
\<close>

record 'k trade = "'k norm_trade" +
  exit_reason :: pyval

text \<open>
  The floats of the aggregation are doubles. A finite double is held as the rational it
  is exactly, so comparisons are those of the rationals. The operations on doubles round
  their results, and how \<open>sum\<close> adds depends on the interpreter (compensated summation
  since Python 3.12); they are parameters: \<open>sum(xs)\<close> of a sequence of floats, \<open>x + y\<close>,
  \<open>x * y\<close>, \<open>a / b\<close> of two integers with \<open>b\<close> not 0, and \<open>round(x, n)\<close>.
\<close>

record floatlib =
  f_sum :: "rat list \<Rightarrow> rat"
  f_add :: "rat \<Rightarrow> rat \<Rightarrow> rat"
  f_mul :: "rat \<Rightarrow> rat \<Rightarrow> rat"
  f_truediv :: "int \<Rightarrow> int \<Rightarrow> rat"
  f_round :: "rat \<Rightarrow> nat \<Rightarrow> rat"

text \<open>The dictionary \<open>summarize_trades\<close> returns; \<open>profit_sum\<close> is its key \<open>profit\<close>,
  \<open>trade_count\<close> its key \<open>trades\<close>.\<close>

record summary =
  profit_sum :: rat
  trade_count :: int
  wins :: int
  losses :: int
  win_rate :: rat

text \<open>\<open>a / b\<close> on integers.\<close>

definition py_truediv :: "floatlib \<Rightarrow> int \<Rightarrow> int \<Rightarrow> error + rat" where
  "py_truediv fl a b = (if b = 0 then Inl ZeroDivisionError else Inr (f_truediv fl a b))"

definition summarize_trades :: "floatlib \<Rightarrow> 'k trade list \<Rightarrow> error + summary" where
  "summarize_trades fl ts =
     (if ts = []
      then Inr \<lparr>profit_sum = 0, trade_count = 0, wins = 0, losses = 0, win_rate = 0\<rparr>
      else
        (let total_profit = f_sum fl (map profit ts);
             n_wins = sum_list (map (\<lambda>t. 1) (filter (\<lambda>t. profit t > 0) ts));
             n_losses = sum_list (map (\<lambda>t. 1) (filter (\<lambda>t. profit t < 0) ts));
             total = int (length ts)
         in case (if total \<noteq> 0
                  then (case py_truediv fl n_wins total of
                          Inl err \<Rightarrow> Inl err
                        | Inr q \<Rightarrow> Inr (f_round fl (f_mul fl q 100) 2))
                  else Inr 0) of
              Inl err \<Rightarrow> Inl err
            | Inr rate \<Rightarrow>
                Inr \<lparr>profit_sum = f_round fl total_profit 2, trade_count = total,
                     wins = n_wins, losses = n_losses, win_rate = rate\<rparr>))"

text \<open>The overall summary as the specification words it: count, sum of profit, number of
  trades with \<open>profit > 0\<close>, number with \<open>profit < 0\<close>, win rate = wins/count \<times> 100 (0 when
  the count is 0), profit and win rate rounded to 2 decimals.\<close>

definition overall_summary_spec :: "floatlib \<Rightarrow> 'k trade list \<Rightarrow> summary" where
  "overall_summary_spec fl ts =
     \<lparr>profit_sum = f_round fl (f_sum fl (map profit ts)) 2,
      trade_count = int (length ts),
      wins = int (length (filter (\<lambda>t. profit t > 0) ts)),
      losses = int (length (filter (\<lambda>t. profit t < 0) ts)),
      win_rate = (if length ts = 0 then 0
                  else f_round fl
                         (f_mul fl (f_truediv fl (int (length (filter (\<lambda>t. profit t > 0) ts)))
                                                 (int (length ts))) 100) 2)\<rparr>"

subsection \<open>Exit classification\<close>

definition DEFAULT_EXIT_TYPE :: string where
  "DEFAULT_EXIT_TYPE = ''manual''"

definition EXIT_LABELS :: "(string \<times> string) list" where
  "EXIT_LABELS = [(''tp'', ''Exit: TP''), (''sl'', ''Exit: SL''), (''manual'', ''Exit Manual'')]"

definition TP_REASON_HINTS :: "string list" where
  "TP_REASON_HINTS = [''deal_reason_tp'', ''tp_hit'', ''takeprofit'', ''take profit'', ''target_tp'']"

definition SL_REASON_HINTS :: "string list" where
  "SL_REASON_HINTS = [''deal_reason_sl'', ''sl_hit'', ''stoploss'', ''stop loss'', ''target_sl'']"

definition TP_COMMENT_HINTS :: "string list" where
  "TP_COMMENT_HINTS = [''[tp'', '' tp'', ''tp '', ''tp:'', ''tp-'', ''tp hit'', ''take profit'']"

definition SL_COMMENT_HINTS :: "string list" where
  "SL_COMMENT_HINTS = [''[sl'', '' sl'', ''sl '', ''sl:'', ''sl-'', ''sl hit'', ''stop loss'']"

definition normalize_text :: "pylib \<Rightarrow> pyval \<Rightarrow> string" where
  "normalize_text lib v = py_lower (py_strip (py_str lib v))"

definition contains_hint :: "pylib \<Rightarrow> pyval \<Rightarrow> string list \<Rightarrow> bool" where
  "contains_hint lib v hints =
     (if \<not> truthy v then False
      else (let text = normalize_text lib v in list_ex (\<lambda>hint. sublist hint text) hints))"

definition determine_exit_type :: "pylib \<Rightarrow> 'k trade option \<Rightarrow> string" where
  "determine_exit_type lib trade =
     (case trade of
        None \<Rightarrow> DEFAULT_EXIT_TYPE
      | Some t \<Rightarrow>
          if truthy (tp_label t) then ''tp''
          else if contains_hint lib (exit_reason t) TP_REASON_HINTS then ''tp''
          else if contains_hint lib (comment t) TP_COMMENT_HINTS then ''tp''
          else if truthy (sl_label t) then ''sl''
          else if contains_hint lib (exit_reason t) SL_REASON_HINTS then ''sl''
          else if contains_hint lib (comment t) SL_COMMENT_HINTS then ''sl''
          else DEFAULT_EXIT_TYPE)"

text \<open>The priority list of the specification: the rules in order, the first one that
  matches decides, \<open>manual\<close> when none does.\<close>

definition exit_rules :: "pylib \<Rightarrow> 'k trade \<Rightarrow> (bool \<times> string) list" where
  "exit_rules lib t =
     [(truthy (tp_label t), ''tp''),
      (contains_hint lib (exit_reason t) TP_REASON_HINTS, ''tp''),
      (contains_hint lib (comment t) TP_COMMENT_HINTS, ''tp''),
      (truthy (sl_label t), ''sl''),
      (contains_hint lib (exit_reason t) SL_REASON_HINTS, ''sl''),
      (contains_hint lib (comment t) SL_COMMENT_HINTS, ''sl'')]"

definition first_match :: "(bool \<times> string) list \<Rightarrow> string \<Rightarrow> string" where
  "first_match rules dflt = (case find fst rules of Some (_, r) \<Rightarrow> r | None \<Rightarrow> dflt)"

text \<open>\<open>EXIT_LABELS[_DEFAULT_EXIT_TYPE]\<close> is \<open>Exit Manual\<close>.\<close>

definition build_exit_label :: "string \<Rightarrow> string" where
  "build_exit_label exit_type =
     (case map_of EXIT_LABELS exit_type of Some l \<Rightarrow> l | None \<Rightarrow> ''Exit Manual'')"

definition canonical_side :: "pylib \<Rightarrow> pyval \<Rightarrow> string" where
  "canonical_side lib ot =
     (if \<not> truthy ot then []
      else (let side = py_upper (py_str lib ot)
            in if sublist ''BUY'' side then ''BUY''
               else if sublist ''SELL'' side then ''SELL''
               else side))"

text \<open>The dictionary \<open>summarize_single_trade\<close> returns; \<open>ts_comment\<close> is \<open>None\<close> when the
  key \<open>comment\<close> has been popped.\<close>

record 'k trade_summary =
  ts_ticket :: 'k
  ts_symbol :: pyval
  ts_profit :: rat
  ts_volume :: rat
  ts_order_type :: string
  ts_closed_at :: "string option"
  ts_exit :: string
  ts_exit_type :: string
  ts_comment :: "pyval option"

definition summarize_single_trade ::
  "pylib \<Rightarrow> floatlib \<Rightarrow> 'k trade option \<Rightarrow> bool \<Rightarrow> 'k trade_summary option" where
  "summarize_single_trade lib fl trade include_comment =
     (case trade of
        None \<Rightarrow> None
      | Some t \<Rightarrow>
          (let exit_type = determine_exit_type lib (Some t)
           in Some \<lparr>ts_ticket = ticket t,
                    ts_symbol = symbol t,
                    ts_profit = f_round fl (profit t) 2,
                    ts_volume = f_round fl (volume t) 2,
                    ts_order_type = canonical_side lib (order_type t),
                    ts_closed_at = Some (isoformat (closed_at t)),
                    ts_exit = build_exit_label exit_type,
                    ts_exit_type = exit_type,
                    ts_comment = (if include_comment then Some (comment t) else None)\<rparr>))"

subsection \<open>Rolling windows\<close>

definition WINDOWS :: "(string \<times> int \<times> string) list" where
  "WINDOWS = [(''7d'', 7, ''Letzte 7 Tage''), (''30d'', 30, ''Letzte 30 Tage''),
              (''365d'', 365, ''Letzte 365 Tage'')]"

definition timedelta_days :: "int \<Rightarrow> int" where
  "timedelta_days days = days * 86400000000"

text \<open>\<open>max(xs, key=f, default=None)\<close> and \<open>min(xs, key=f, default=None)\<close>: the scan keeps
  the element it holds unless the next one is strictly greater (smaller).\<close>

fun py_max_by :: "('a \<Rightarrow> rat) \<Rightarrow> 'a list \<Rightarrow> 'a option" where
  "py_max_by f [] = None"
| "py_max_by f (x # xs) = Some (foldl (\<lambda>best y. if f best < f y then y else best) x xs)"

fun py_min_by :: "('a \<Rightarrow> rat) \<Rightarrow> 'a list \<Rightarrow> 'a option" where
  "py_min_by f [] = None"
| "py_min_by f (x # xs) = Some (foldl (\<lambda>best y. if f y < f best then y else best) x xs)"

record 'k window = summary +
  best_trade :: "'k trade_summary option"
  worst_trade :: "'k trade_summary option"

text \<open>The body of the loop of \<open>build_windows\<close> for one window, and the loop; \<open>now\<close> is
  the clock reading \<open>datetime.now(timezone.utc)\<close>.\<close>

definition build_window ::
  "pylib \<Rightarrow> floatlib \<Rightarrow> datetime \<Rightarrow> 'k trade list \<Rightarrow> int \<Rightarrow> error + 'k window" where
  "build_window lib fl now ts days =
     (let cutoff = now - timedelta_days days;
          window_trades = filter (\<lambda>t. closed_at t \<ge> cutoff) ts
      in case summarize_trades fl window_trades of
           Inl err \<Rightarrow> Inl err
         | Inr s \<Rightarrow>
             Inr \<lparr>profit_sum = profit_sum s, trade_count = trade_count s, wins = wins s,
                  losses = losses s, win_rate = win_rate s,
                  best_trade =
                    summarize_single_trade lib fl (py_max_by profit window_trades) False,
                  worst_trade =
                    summarize_single_trade lib fl (py_min_by profit window_trades) False\<rparr>)"

fun build_windows_loop ::
  "pylib \<Rightarrow> floatlib \<Rightarrow> datetime \<Rightarrow> 'k trade list \<Rightarrow> (string \<times> int \<times> string) list
     \<Rightarrow> error + (string \<times> 'k window) list" where
  "build_windows_loop lib fl now ts [] = Inr []"
| "build_windows_loop lib fl now ts ((key, days, label) # rest) =
     (case build_window lib fl now ts days of
        Inl err \<Rightarrow> Inl err
      | Inr w \<Rightarrow>
          (case build_windows_loop lib fl now ts rest of
             Inl err \<Rightarrow> Inl err
           | Inr ws \<Rightarrow> Inr ((key, w) # ws)))"

definition build_windows ::
  "pylib \<Rightarrow> floatlib \<Rightarrow> datetime \<Rightarrow> 'k trade list \<Rightarrow> error + (string \<times> 'k window) list" where
  "build_windows lib fl now ts = build_windows_loop lib fl now ts WINDOWS"

text \<open>
  What the specification asks of a window of \<open>days\<close> days: it holds the trades closed at
  or after \<open>now\<close> minus that many days (a day is 86400000000 microseconds), its summary
  is the overall summary of these trades, and its best (worst) trade is the summary of the
  trade of greatest (least) profit, the first such in the order of the list, or absent
  when there is no trade.
\<close>

definition is_first_max :: "('a \<Rightarrow> rat) \<Rightarrow> 'a list \<Rightarrow> 'a \<Rightarrow> bool" where
  "is_first_max f xs m =
     (\<exists>pre post. xs = pre @ m # post \<and> (\<forall>a\<in>set pre. f a < f m) \<and> (\<forall>a\<in>set post. f a \<le> f m))"

definition is_first_min :: "('a \<Rightarrow> rat) \<Rightarrow> 'a list \<Rightarrow> 'a \<Rightarrow> bool" where
  "is_first_min f xs m =
     (\<exists>pre post. xs = pre @ m # post \<and> (\<forall>a\<in>set pre. f m < f a) \<and> (\<forall>a\<in>set post. f m \<le> f a))"

definition window_spec ::
  "pylib \<Rightarrow> floatlib \<Rightarrow> datetime \<Rightarrow> 'k trade list \<Rightarrow> int \<Rightarrow> 'k window \<Rightarrow> bool" where
  "window_spec lib fl now ts days w =
     (let wt = filter (\<lambda>t. now - days * 86400000000 \<le> closed_at t) ts in
        summarize_trades fl wt =
          Inr \<lparr>profit_sum = profit_sum w, trade_count = trade_count w, wins = wins w,
               losses = losses w, win_rate = win_rate w\<rparr>
      \<and> (wt = [] \<longrightarrow> best_trade w = None \<and> worst_trade w = None)
      \<and> (wt \<noteq> [] \<longrightarrow>
            (\<exists>m. is_first_max profit wt m
                 \<and> best_trade w = summarize_single_trade lib fl (Some m) False)
          \<and> (\<exists>m. is_first_min profit wt m
                 \<and> worst_trade w = summarize_single_trade lib fl (Some m) False)))"

subsection \<open>Ranking by symbol\<close>

text \<open>A group of \<open>build_symbol_lists\<close>; the key \<open>rank\<close> is absent until the groups have
  been sorted. The groups are the values of a dictionary, which keeps them in the order
  in which their symbols were first met; its keys are compared with \<open>==\<close>.\<close>

record bucket =
  b_symbol :: pyval
  b_profit :: rat
  b_trades :: int
  b_wins :: int
  b_losses :: int
  rank :: "int option"

definition bump :: "floatlib \<Rightarrow> 'k trade \<Rightarrow> bucket \<Rightarrow> bucket" where
  "bump fl t b =
     b\<lparr>b_profit := f_add fl (b_profit b) (profit t),
       b_trades := b_trades b + 1,
       b_wins := (if profit t > 0 then b_wins b + 1 else b_wins b),
       b_losses := (if profit t > 0 then b_losses b
                    else if profit t < 0 then b_losses b + 1 else b_losses b)\<rparr>"

fun add_trade :: "floatlib \<Rightarrow> 'k trade \<Rightarrow> bucket list \<Rightarrow> bucket list" where
  "add_trade fl t [] =
     [bump fl t \<lparr>b_symbol = symbol t, b_profit = 0, b_trades = 0, b_wins = 0, b_losses = 0,
                 rank = None\<rparr>]"
| "add_trade fl t (b # bs) =
     (if py_eq (symbol t) (b_symbol b) then bump fl t b # bs else b # add_trade fl t bs)"

definition symbol_stats :: "floatlib \<Rightarrow> 'k trade list \<Rightarrow> bucket list" where
  "symbol_stats fl ts = foldl (\<lambda>stats t. add_trade fl t stats) [] ts"

fun py_enumerate :: "int \<Rightarrow> 'a list \<Rightarrow> (int \<times> 'a) list" where
  "py_enumerate i [] = []"
| "py_enumerate i (x # xs) = (i, x) # py_enumerate (i + 1) xs"

text \<open>\<open>sorted(..., reverse=True)\<close> keeps the order of equal keys, as the sort on the
  negated key does.\<close>

definition ranked_symbols :: "floatlib \<Rightarrow> 'k trade list \<Rightarrow> bucket list" where
  "ranked_symbols fl ts =
     (let ordered = sort_key (\<lambda>item. - b_profit item) (symbol_stats fl ts)
      in map (\<lambda>(idx, entry). entry\<lparr>rank := Some idx\<rparr>) (py_enumerate 1 ordered))"

definition rank_key :: "bucket \<Rightarrow> int" where
  "rank_key item = (case rank item of Some r \<Rightarrow> r | None \<Rightarrow> 0)"

definition build_symbol_lists :: "floatlib \<Rightarrow> 'k trade list \<Rightarrow> bucket list \<times> bucket list" where
  "build_symbol_lists fl ts =
     (let ordered = ranked_symbols fl ts;
          top = take 5 ordered;
          bottom_slice = drop (length ordered - 5) ordered;
          bottom = sort_key rank_key bottom_slice
      in (top, bottom))"

text \<open>
  Grouping by symbol as the specification words it: one group for each symbol, in the
  order in which the symbols are first met, holding the symbol as first met, the profits
  of its trades added up in the order of the list from 0.0, and the numbers of its
  trades, of its winners and of its losers.
\<close>

definition first_symbols :: "pyval list \<Rightarrow> pyval list" where
  "first_symbols ss =
     foldl (\<lambda>seen s. if list_ex (\<lambda>k. py_eq s k) seen then seen else seen @ [s]) [] ss"

definition group_of :: "floatlib \<Rightarrow> 'k trade list \<Rightarrow> pyval \<Rightarrow> bucket" where
  "group_of fl ts s =
     (let g = filter (\<lambda>t. py_eq (symbol t) s) ts in
      \<lparr>b_symbol = s,
       b_profit = foldl (f_add fl) 0 (map profit g),
       b_trades = int (length g),
       b_wins = int (length (filter (\<lambda>t. profit t > 0) g)),
       b_losses = int (length (filter (\<lambda>t. profit t < 0) g)),
       rank = None\<rparr>)"


section \<open>Properties of the Python values\<close>

lemma py_eq_refl: "py_eq a a"
  by (cases a) (simp_all add: py_eq_def)

lemma py_eq_PStr: "py_eq (PStr s) v \<longleftrightarrow> v = PStr s"
  by (cases v) (auto simp: py_eq_def)

lemma py_in_PStr: "py_in (PStr s) E \<longleftrightarrow> PStr s \<in> E"
  by (auto simp: py_in_def py_eq_PStr)

lemma py_in_insert: "py_in x (insert y E) \<longleftrightarrow> py_eq x y \<or> py_in x E"
  by (auto simp: py_in_def)

lemma py_in_mono: "py_in x E \<Longrightarrow> E \<subseteq> E' \<Longrightarrow> py_in x E'"
  by (auto simp: py_in_def)

lemma py_sort_by_mset: "py_sort_by key xs = Inr ys \<Longrightarrow> mset ys = mset xs"
  by (auto simp: py_sort_by_def split: if_splits)

lemma py_sort_by_set: "py_sort_by key xs = Inr ys \<Longrightarrow> set ys = set xs"
  using py_sort_by_mset mset_eq_setD by blast

lemma py_sort_by_length: "py_sort_by key xs = Inr ys \<Longrightarrow> length ys = length xs"
  using py_sort_by_mset mset_eq_length by blast

lemma sorted_wrt_short: "length xs \<le> 1 \<Longrightarrow> sorted_wrt P xs"
  by (cases xs) auto

lemma key_le_str: "str_of a \<noteq> None \<Longrightarrow> str_of b \<noteq> None \<Longrightarrow> key_le a b \<longleftrightarrow> the_str a \<le> the_str b"
  by (cases a; cases b) (auto simp: key_le_def the_str_def)

lemma key_le_num: "num_of a \<noteq> None \<Longrightarrow> num_of b \<noteq> None \<Longrightarrow> key_le a b \<longleftrightarrow> the_num a \<le> the_num b"
  by (cases a; cases b) (auto simp: key_le_def the_num_def)

lemma sort_key_str_sorted:
  assumes "list_all (\<lambda>x. str_of (key x) \<noteq> None) xs"
  shows "non_decreasing_by key (sort_key (\<lambda>x. the_str (key x)) xs)"
proof -
  let ?ys = "sort_key (\<lambda>x. the_str (key x)) xs"
  have "sorted (map (\<lambda>x. the_str (key x)) ?ys)" by simp
  then have "sorted_wrt (\<lambda>a b. the_str (key a) \<le> the_str (key b)) ?ys"
    by (simp add: sorted_map)
  moreover have "\<And>a b. a \<in> set ?ys \<Longrightarrow> b \<in> set ?ys \<Longrightarrow>
      the_str (key a) \<le> the_str (key b) \<Longrightarrow> key_le (key a) (key b)"
    using assms by (simp add: list_all_iff key_le_str)
  ultimately show ?thesis
    unfolding non_decreasing_by_def by (rule sorted_wrt_mono_rel[rotated]) blast
qed

lemma sort_key_num_sorted:
  assumes "list_all (\<lambda>x. num_of (key x) \<noteq> None) xs"
  shows "non_decreasing_by key (sort_key (\<lambda>x. the_num (key x)) xs)"
proof -
  let ?ys = "sort_key (\<lambda>x. the_num (key x)) xs"
  have "sorted (map (\<lambda>x. the_num (key x)) ?ys)" by simp
  then have "sorted_wrt (\<lambda>a b. the_num (key a) \<le> the_num (key b)) ?ys"
    by (simp add: sorted_map)
  moreover have "\<And>a b. a \<in> set ?ys \<Longrightarrow> b \<in> set ?ys \<Longrightarrow>
      the_num (key a) \<le> the_num (key b) \<Longrightarrow> key_le (key a) (key b)"
    using assms by (simp add: list_all_iff key_le_num)
  ultimately show ?thesis
    unfolding non_decreasing_by_def by (rule sorted_wrt_mono_rel[rotated]) blast
qed

lemma py_sort_by_sorted:
  assumes "py_sort_by key xs = Inr ys"
  shows "non_decreasing_by key ys"
proof (cases "length xs \<le> 1")
  case True
  with assms have "ys = xs" by (simp add: py_sort_by_def)
  with True show ?thesis by (simp add: non_decreasing_by_def sorted_wrt_short)
next
  case False
  note long = this
  show ?thesis
  proof (cases "list_all (\<lambda>x. str_of (key x) \<noteq> None) xs")
    case True
    with long assms have "ys = sort_key (\<lambda>x. the_str (key x)) xs"
      by (simp add: py_sort_by_def)
    with True show ?thesis by (simp add: sort_key_str_sorted)
  next
    case False
    note nostr = this
    show ?thesis
    proof (cases "list_all (\<lambda>x. num_of (key x) \<noteq> None) xs")
      case True
      with long nostr assms have "ys = sort_key (\<lambda>x. the_num (key x)) xs"
        by (simp add: py_sort_by_def)
      with True show ?thesis by (simp add: sort_key_num_sorted)
    next
      case False
      with long nostr assms show ?thesis by (simp add: py_sort_by_def)
    qed
  qed
qed

lemma get_serialize_trade_ticket: "get (serialize_trade t) ''ticket'' = PStr (ticket t)"
  by (simp add: serialize_trade_def get_def)

lemma get_serialize_snapshot_timestamp:
  "get (serialize_snapshot s) ''timestamp'' = PStr (isoformat (timestamp s))"
  by (simp add: serialize_snapshot_def get_def)

subsection \<open>The loop over the new trades\<close>

lemma append_new_trades_skip:
  "\<forall>t\<in>set T. ticket t = [] \<or> py_in (PStr (ticket t)) E \<Longrightarrow>
     append_new_trades E acc ap T = (E, acc, ap)"
  by (induction T) (auto simp: Let_def)

lemma append_new_trades_covered:
  "append_new_trades E acc ap T = (E', acc', ap') \<Longrightarrow>
     E \<subseteq> E' \<and> (\<forall>t\<in>set T. ticket t = [] \<or> py_in (PStr (ticket t)) E')"
proof (induction T arbitrary: E acc ap)
  case Nil
  then show ?case by simp
next
  case (Cons t T)
  show ?case
  proof (cases "ticket t = [] \<or> py_in (PStr (ticket t)) E")
    case True
    with Cons.prems have "append_new_trades E acc ap T = (E', acc', ap')" by (simp add: Let_def)
    from Cons.IH[OF this] True show ?thesis by (auto intro: py_in_mono)
  next
    case False
    with Cons.prems have "append_new_trades (insert (PStr (ticket t)) E)
        (acc @ [serialize_trade t]) True T = (E', acc', ap')" by (simp add: Let_def)
    from Cons.IH[OF this] show ?thesis by (auto simp: py_in_PStr)
  qed
qed

lemma append_new_trades_keys:
  "append_new_trades E acc ap T = (E', acc', ap') \<Longrightarrow>
     E = (\<lambda>e. get e ''ticket'') ` set acc \<Longrightarrow> E' = (\<lambda>e. get e ''ticket'') ` set acc'"
proof (induction T arbitrary: E acc ap)
  case Nil
  then show ?case by auto
next
  case (Cons t T)
  show ?case
  proof (cases "ticket t = [] \<or> py_in (PStr (ticket t)) E")
    case True
    with Cons.prems have "append_new_trades E acc ap T = (E', acc', ap')" by (simp add: Let_def)
    from Cons.IH[OF this Cons.prems(2)] show ?thesis .
  next
    case False
    with Cons.prems have *: "append_new_trades (insert (PStr (ticket t)) E)
        (acc @ [serialize_trade t]) True T = (E', acc', ap')" by (simp add: Let_def)
    have "insert (PStr (ticket t)) E = (\<lambda>e. get e ''ticket'') ` set (acc @ [serialize_trade t])"
      using Cons.prems(2) by (simp add: get_serialize_trade_ticket)
    from Cons.IH[OF * this] show ?thesis .
  qed
qed

lemma append_new_trades_length:
  "append_new_trades E acc ap T = (E', acc', ap') \<Longrightarrow>
     length acc \<le> length acc' \<and> (ap' \<longleftrightarrow> ap \<or> length acc < length acc')
     \<and> (length acc' = length acc \<longrightarrow> acc' = acc)"
proof (induction T arbitrary: E acc ap)
  case Nil
  then show ?case by auto
next
  case (Cons t T)
  show ?case
  proof (cases "ticket t = [] \<or> py_in (PStr (ticket t)) E")
    case True
    with Cons.prems have "append_new_trades E acc ap T = (E', acc', ap')" by (simp add: Let_def)
    from Cons.IH[OF this] show ?thesis .
  next
    case False
    with Cons.prems have *: "append_new_trades (insert (PStr (ticket t)) E)
        (acc @ [serialize_trade t]) True T = (E', acc', ap')" by (simp add: Let_def)
    from Cons.IH[OF *] show ?thesis by auto
  qed
qed


subsection \<open>The loop over the new snapshots\<close>

lemma append_new_snapshots_skip:
  "\<forall>s\<in>set S. \<not> truthy (get (serialize_snapshot s) ''timestamp'')
        \<or> py_in (get (serialize_snapshot s) ''timestamp'') E \<Longrightarrow>
     append_new_snapshots E acc ap S = (E, acc, ap)"
  by (induction S) (auto simp: Let_def)

lemma append_new_snapshots_covered:
  "append_new_snapshots E acc ap S = (E', acc', ap') \<Longrightarrow>
     E \<subseteq> E' \<and> (\<forall>s\<in>set S. \<not> truthy (get (serialize_snapshot s) ''timestamp'')
        \<or> py_in (get (serialize_snapshot s) ''timestamp'') E')"
proof (induction S arbitrary: E acc ap)
  case Nil
  then show ?case by simp
next
  case (Cons s S)
  let ?k = "get (serialize_snapshot s) ''timestamp''"
  show ?case
  proof (cases "\<not> truthy ?k \<or> py_in ?k E")
    case True
    with Cons.prems have "append_new_snapshots E acc ap S = (E', acc', ap')"
      by (simp add: Let_def)
    from Cons.IH[OF this] True show ?thesis by (auto intro: py_in_mono)
  next
    case False
    with Cons.prems have "append_new_snapshots (insert ?k E)
        (acc @ [serialize_snapshot s]) True S = (E', acc', ap')" by (simp add: Let_def)
    from Cons.IH[OF this] show ?thesis
      by (auto simp: py_in_def intro: py_eq_refl)
  qed
qed

lemma append_new_snapshots_keys:
  "append_new_snapshots E acc ap S = (E', acc', ap') \<Longrightarrow>
     E = (\<lambda>e. get e ''timestamp'') ` set acc \<Longrightarrow> E' = (\<lambda>e. get e ''timestamp'') ` set acc'"
proof (induction S arbitrary: E acc ap)
  case Nil
  then show ?case by auto
next
  case (Cons s S)
  let ?k = "get (serialize_snapshot s) ''timestamp''"
  show ?case
  proof (cases "\<not> truthy ?k \<or> py_in ?k E")
    case True
    with Cons.prems have "append_new_snapshots E acc ap S = (E', acc', ap')"
      by (simp add: Let_def)
    from Cons.IH[OF this Cons.prems(2)] show ?thesis .
  next
    case False
    with Cons.prems have *: "append_new_snapshots (insert ?k E)
        (acc @ [serialize_snapshot s]) True S = (E', acc', ap')" by (simp add: Let_def)
    have "insert ?k E = (\<lambda>e. get e ''timestamp'') ` set (acc @ [serialize_snapshot s])"
      using Cons.prems(2) by simp
    from Cons.IH[OF * this] show ?thesis .
  qed
qed

lemma append_new_snapshots_length:
  "append_new_snapshots E acc ap S = (E', acc', ap') \<Longrightarrow>
     length acc \<le> length acc' \<and> (ap' \<longleftrightarrow> ap \<or> length acc < length acc')
     \<and> (length acc' = length acc \<longrightarrow> acc' = acc)"
proof (induction S arbitrary: E acc ap)
  case Nil
  then show ?case by auto
next
  case (Cons s S)
  let ?k = "get (serialize_snapshot s) ''timestamp''"
  show ?case
  proof (cases "\<not> truthy ?k \<or> py_in ?k E")
    case True
    with Cons.prems have "append_new_snapshots E acc ap S = (E', acc', ap')"
      by (simp add: Let_def)
    from Cons.IH[OF this] show ?thesis .
  next
    case False
    with Cons.prems have *: "append_new_snapshots (insert ?k E)
        (acc @ [serialize_snapshot s]) True S = (E', acc', ap')" by (simp add: Let_def)
    from Cons.IH[OF *] show ?thesis by auto
  qed
qed

subsection \<open>A successful merge, taken apart\<close>

lemma merge_history_InrE:
  assumes "merge_history h T S = Inr h1"
  obtains E ts ap E' ss ap' where
    "append_new_trades ((\<lambda>e. get e ''ticket'') ` set (trades h)) (trades h) False T = (E, ts, ap)"
    "(if ap then py_sort_by closed_at_key ts else Inr ts) = Inr (trades h1)"
    "append_new_snapshots ((\<lambda>e. get e ''timestamp'') ` set (snapshots h)) (snapshots h) False S
       = (E', ss, ap')"
    "(if ap' then py_sort_by timestamp_key ss else Inr ss) = Inr (snapshots h1)"
    "version h1 = PInt HISTORY_VERSION"
proof -
  obtain E ts ap where a: "append_new_trades ((\<lambda>e. get e ''ticket'') ` set (trades h))
      (trades h) False T = (E, ts, ap)" by (metis prod_cases3)
  obtain E' ss ap' where b: "append_new_snapshots ((\<lambda>e. get e ''timestamp'') ` set (snapshots h))
      (snapshots h) False S = (E', ss, ap')" by (metis prod_cases3)
  from assms a obtain ts' where c: "(if ap then py_sort_by closed_at_key ts else Inr ts) = Inr ts'"
    by (cases "if ap then py_sort_by closed_at_key ts else Inr ts")
       (simp_all add: merge_history_def)
  from assms a b c obtain ss' where d:
    "(if ap' then py_sort_by timestamp_key ss else Inr ss) = Inr ss'"
    by (cases "if ap' then py_sort_by timestamp_key ss else Inr ss")
       (simp_all add: merge_history_def)
  from assms a b c d have "h1 = \<lparr>version = PInt HISTORY_VERSION, trades = ts', snapshots = ss'\<rparr>"
    by (simp add: merge_history_def)
  with a b c d that show thesis by simp
qed



section \<open>Properties of merge\_history\<close>

text \<open>
  Claim C1 (idempotence). Whenever \<open>merge_history\<close> returns a history for a history
  \<open>h\<close>, normalized trades \<open>T\<close> and snapshots \<open>S\<close>, merging the same \<open>T\<close> and \<open>S\<close> into
  the result returns the result itself: the same trades and the same snapshots in the same
  order, and the same version.
\<close>

theorem merge_history_idempotent:
  assumes "merge_history h T S = Inr h1"
  shows "merge_history h1 T S = Inr h1"
proof -
  from assms obtain E ts ap E' ss ap' where
    a: "append_new_trades ((\<lambda>e. get e ''ticket'') ` set (trades h)) (trades h) False T = (E, ts, ap)"
    and c: "(if ap then py_sort_by closed_at_key ts else Inr ts) = Inr (trades h1)"
    and b: "append_new_snapshots ((\<lambda>e. get e ''timestamp'') ` set (snapshots h)) (snapshots h) False S
       = (E', ss, ap')"
    and d: "(if ap' then py_sort_by timestamp_key ss else Inr ss) = Inr (snapshots h1)"
    and v: "version h1 = PInt HISTORY_VERSION"
    by (rule merge_history_InrE)
  have "set (trades h1) = set ts" using c py_sort_by_set by (auto split: if_splits)
  with append_new_trades_keys[OF a] have "(\<lambda>e. get e ''ticket'') ` set (trades h1) = E" by simp
  with append_new_trades_covered[OF a] have
    "\<forall>t\<in>set T. ticket t = [] \<or> py_in (PStr (ticket t)) ((\<lambda>e. get e ''ticket'') ` set (trades h1))"
    by simp
  then have t: "append_new_trades ((\<lambda>e. get e ''ticket'') ` set (trades h1)) (trades h1) False T
     = ((\<lambda>e. get e ''ticket'') ` set (trades h1), trades h1, False)"
    by (rule append_new_trades_skip)
  have "set (snapshots h1) = set ss" using d py_sort_by_set by (auto split: if_splits)
  with append_new_snapshots_keys[OF b] have "(\<lambda>e. get e ''timestamp'') ` set (snapshots h1) = E'"
    by simp
  with append_new_snapshots_covered[OF b] have
    "\<forall>s\<in>set S. \<not> truthy (get (serialize_snapshot s) ''timestamp'')
        \<or> py_in (get (serialize_snapshot s) ''timestamp'')
             ((\<lambda>e. get e ''timestamp'') ` set (snapshots h1))"
    by simp
  then have s: "append_new_snapshots ((\<lambda>e. get e ''timestamp'') ` set (snapshots h1))
      (snapshots h1) False S = ((\<lambda>e. get e ''timestamp'') ` set (snapshots h1), snapshots h1, False)"
    by (rule append_new_snapshots_skip)
  have "merge_history h1 T S
      = Inr \<lparr>version = PInt HISTORY_VERSION, trades = trades h1, snapshots = snapshots h1\<rparr>"
    by (simp add: merge_history_def t s)
  also have "\<lparr>version = PInt HISTORY_VERSION, trades = trades h1, snapshots = snapshots h1\<rparr> = h1"
    using v by simp
  finally show ?thesis .
qed

theorem merge_history_idempotent_witness:
  "merge_history
     \<lparr>version = PInt 1,
      trades = [[(''ticket'', PStr ''7''), (''closed_at'', PStr ''2024-01-03T00:00:00Z'')]],
      snapshots = []\<rparr>
     [\<lparr>ticket = ''8'', symbol = PStr ''XAUUSD'', volume = 1 / 10, profit = 25 / 2,
       order_type = PStr ''buy'', comment = PNone, opened_at = None,
       closed_at = 1704164645000000, tp_label = PNone, sl_label = PNone\<rparr>,
      \<lparr>ticket = ''7'', symbol = PStr ''XAUUSD'', volume = 1 / 10, profit = 99,
       order_type = PStr ''sell'', comment = PNone, opened_at = None,
       closed_at = 1704164646000000, tp_label = PNone, sl_label = PNone\<rparr>]
     [\<lparr>timestamp = 1704164645500000, balance = 1000, equity = 1001, floating = 1\<rparr>]
   = Inr \<lparr>version = PInt 1,
      trades =
        [[(''ticket'', PStr ''8''), (''symbol'', PStr ''XAUUSD''), (''volume'', PFloat (1 / 10)),
          (''profit'', PFloat (25 / 2)), (''order_type'', PStr ''buy''), (''comment'', PNone),
          (''opened_at'', PNone), (''closed_at'', PStr ''2024-01-02T03:04:05Z''),
          (''tp_label'', PNone), (''sl_label'', PNone)],
         [(''ticket'', PStr ''7''), (''closed_at'', PStr ''2024-01-03T00:00:00Z'')]],
      snapshots =
        [[(''timestamp'', PStr ''2024-01-02T03:04:05Z''), (''balance'', PFloat 1000),
          (''equity'', PFloat 1001), (''floating'', PFloat 1)]]\<rparr>
   \<and> merge_history
     \<lparr>version = PInt 1,
      trades =
        [[(''ticket'', PStr ''8''), (''symbol'', PStr ''XAUUSD''), (''volume'', PFloat (1 / 10)),
          (''profit'', PFloat (25 / 2)), (''order_type'', PStr ''buy''), (''comment'', PNone),
          (''opened_at'', PNone), (''closed_at'', PStr ''2024-01-02T03:04:05Z''),
          (''tp_label'', PNone), (''sl_label'', PNone)],
         [(''ticket'', PStr ''7''), (''closed_at'', PStr ''2024-01-03T00:00:00Z'')]],
      snapshots =
        [[(''timestamp'', PStr ''2024-01-02T03:04:05Z''), (''balance'', PFloat 1000),
          (''equity'', PFloat 1001), (''floating'', PFloat 1)]]\<rparr>
     [\<lparr>ticket = ''8'', symbol = PStr ''XAUUSD'', volume = 1 / 10, profit = 25 / 2,
       order_type = PStr ''buy'', comment = PNone, opened_at = None,
       closed_at = 1704164645000000, tp_label = PNone, sl_label = PNone\<rparr>,
      \<lparr>ticket = ''7'', symbol = PStr ''XAUUSD'', volume = 1 / 10, profit = 99,
       order_type = PStr ''sell'', comment = PNone, opened_at = None,
       closed_at = 1704164646000000, tp_label = PNone, sl_label = PNone\<rparr>]
     [\<lparr>timestamp = 1704164645500000, balance = 1000, equity = 1001, floating = 1\<rparr>]
   = Inr \<lparr>version = PInt 1,
      trades =
        [[(''ticket'', PStr ''8''), (''symbol'', PStr ''XAUUSD''), (''volume'', PFloat (1 / 10)),
          (''profit'', PFloat (25 / 2)), (''order_type'', PStr ''buy''), (''comment'', PNone),
          (''opened_at'', PNone), (''closed_at'', PStr ''2024-01-02T03:04:05Z''),
          (''tp_label'', PNone), (''sl_label'', PNone)],
         [(''ticket'', PStr ''7''), (''closed_at'', PStr ''2024-01-03T00:00:00Z'')]],
      snapshots =
        [[(''timestamp'', PStr ''2024-01-02T03:04:05Z''), (''balance'', PFloat 1000),
          (''equity'', PFloat 1001), (''floating'', PFloat 1)]]\<rparr>"
proof -
  have a: "merge_history
     \<lparr>version = PInt 1,
      trades = [[(''ticket'', PStr ''7''), (''closed_at'', PStr ''2024-01-03T00:00:00Z'')]],
      snapshots = []\<rparr>
     [\<lparr>ticket = ''8'', symbol = PStr ''XAUUSD'', volume = 1 / 10, profit = 25 / 2,
       order_type = PStr ''buy'', comment = PNone, opened_at = None,
       closed_at = 1704164645000000, tp_label = PNone, sl_label = PNone\<rparr>,
      \<lparr>ticket = ''7'', symbol = PStr ''XAUUSD'', volume = 1 / 10, profit = 99,
       order_type = PStr ''sell'', comment = PNone, opened_at = None,
       closed_at = 1704164646000000, tp_label = PNone, sl_label = PNone\<rparr>]
     [\<lparr>timestamp = 1704164645500000, balance = 1000, equity = 1001, floating = 1\<rparr>]
   = Inr \<lparr>version = PInt 1,
      trades =
        [[(''ticket'', PStr ''8''), (''symbol'', PStr ''XAUUSD''), (''volume'', PFloat (1 / 10)),
          (''profit'', PFloat (25 / 2)), (''order_type'', PStr ''buy''), (''comment'', PNone),
          (''opened_at'', PNone), (''closed_at'', PStr ''2024-01-02T03:04:05Z''),
          (''tp_label'', PNone), (''sl_label'', PNone)],
         [(''ticket'', PStr ''7''), (''closed_at'', PStr ''2024-01-03T00:00:00Z'')]],
      snapshots =
        [[(''timestamp'', PStr ''2024-01-02T03:04:05Z''), (''balance'', PFloat 1000),
          (''equity'', PFloat 1001), (''floating'', PFloat 1)]]\<rparr>"
    by code_simp
  from a merge_history_idempotent[OF a] show ?thesis by simp
qed

text \<open>
  Claim C3 (sort invariant), as the code has it. The lists are sorted only under the guard
  \<open>if appended\<close>: when \<open>merge_history\<close> returns and at least one new trade was appended,
  the trades are non-decreasing by \<open>closed_at\<close>; when none was appended the trade list
  is the input list, in the order it had. The same holds for the snapshots and
  \<open>timestamp\<close>.
\<close>

theorem merge_history_sorted_when_appended:
  assumes "merge_history h T S = Inr h1"
  shows "(if length (trades h) < length (trades h1)
          then non_decreasing_by closed_at_key (trades h1) else trades h1 = trades h)
       \<and> (if length (snapshots h) < length (snapshots h1)
          then non_decreasing_by timestamp_key (snapshots h1) else snapshots h1 = snapshots h)"
proof -
  from assms obtain E ts ap E' ss ap' where
    a: "append_new_trades ((\<lambda>e. get e ''ticket'') ` set (trades h)) (trades h) False T = (E, ts, ap)"
    and c: "(if ap then py_sort_by closed_at_key ts else Inr ts) = Inr (trades h1)"
    and b: "append_new_snapshots ((\<lambda>e. get e ''timestamp'') ` set (snapshots h)) (snapshots h) False S
       = (E', ss, ap')"
    and d: "(if ap' then py_sort_by timestamp_key ss else Inr ss) = Inr (snapshots h1)"
    by (rule merge_history_InrE)
  note la = append_new_trades_length[OF a]
  note lb = append_new_snapshots_length[OF b]
  have t: "if length (trades h) < length (trades h1)
          then non_decreasing_by closed_at_key (trades h1) else trades h1 = trades h"
  proof (cases ap)
    case True
    with c have s: "py_sort_by closed_at_key ts = Inr (trades h1)" by simp
    from True la py_sort_by_length[OF s] py_sort_by_sorted[OF s] show ?thesis by simp
  next
    case False
    with c la show ?thesis by auto
  qed
  have s: "if length (snapshots h) < length (snapshots h1)
          then non_decreasing_by timestamp_key (snapshots h1) else snapshots h1 = snapshots h"
  proof (cases ap')
    case True
    with d have s: "py_sort_by timestamp_key ss = Inr (snapshots h1)" by simp
    from True lb py_sort_by_length[OF s] py_sort_by_sorted[OF s] show ?thesis by simp
  next
    case False
    with d lb show ?thesis by auto
  qed
  from t s show ?thesis by simp
qed

theorem merge_history_sorted_when_appended_witness:
  "merge_history
     \<lparr>version = PInt 1,
      trades = [[(''ticket'', PStr ''7''), (''closed_at'', PStr ''2024-01-03T00:00:00Z'')]],
      snapshots = []\<rparr>
     [\<lparr>ticket = ''8'', symbol = PStr ''XAUUSD'', volume = 1 / 10, profit = 25 / 2,
       order_type = PStr ''buy'', comment = PNone, opened_at = None,
       closed_at = 1704164645000000, tp_label = PNone, sl_label = PNone\<rparr>,
      \<lparr>ticket = ''7'', symbol = PStr ''XAUUSD'', volume = 1 / 10, profit = 99,
       order_type = PStr ''sell'', comment = PNone, opened_at = None,
       closed_at = 1704164646000000, tp_label = PNone, sl_label = PNone\<rparr>]
     [\<lparr>timestamp = 1704164645500000, balance = 1000, equity = 1001, floating = 1\<rparr>]
   = Inr \<lparr>version = PInt 1,
      trades =
        [[(''ticket'', PStr ''8''), (''symbol'', PStr ''XAUUSD''), (''volume'', PFloat (1 / 10)),
          (''profit'', PFloat (25 / 2)), (''order_type'', PStr ''buy''), (''comment'', PNone),
          (''opened_at'', PNone), (''closed_at'', PStr ''2024-01-02T03:04:05Z''),
          (''tp_label'', PNone), (''sl_label'', PNone)],
         [(''ticket'', PStr ''7''), (''closed_at'', PStr ''2024-01-03T00:00:00Z'')]],
      snapshots =
        [[(''timestamp'', PStr ''2024-01-02T03:04:05Z''), (''balance'', PFloat 1000),
          (''equity'', PFloat 1001), (''floating'', PFloat 1)]]\<rparr>
   \<and> non_decreasing_by closed_at_key (trades \<lparr>version = PInt 1,
      trades =
        [[(''ticket'', PStr ''8''), (''symbol'', PStr ''XAUUSD''), (''volume'', PFloat (1 / 10)),
          (''profit'', PFloat (25 / 2)), (''order_type'', PStr ''buy''), (''comment'', PNone),
          (''opened_at'', PNone), (''closed_at'', PStr ''2024-01-02T03:04:05Z''),
          (''tp_label'', PNone), (''sl_label'', PNone)],
         [(''ticket'', PStr ''7''), (''closed_at'', PStr ''2024-01-03T00:00:00Z'')]],
      snapshots =
        [[(''timestamp'', PStr ''2024-01-02T03:04:05Z''), (''balance'', PFloat 1000),
          (''equity'', PFloat 1001), (''floating'', PFloat 1)]]\<rparr>)
   \<and> non_decreasing_by timestamp_key (snapshots \<lparr>version = PInt 1,
      trades =
        [[(''ticket'', PStr ''8''), (''symbol'', PStr ''XAUUSD''), (''volume'', PFloat (1 / 10)),
          (''profit'', PFloat (25 / 2)), (''order_type'', PStr ''buy''), (''comment'', PNone),
          (''opened_at'', PNone), (''closed_at'', PStr ''2024-01-02T03:04:05Z''),
          (''tp_label'', PNone), (''sl_label'', PNone)],
         [(''ticket'', PStr ''7''), (''closed_at'', PStr ''2024-01-03T00:00:00Z'')]],
      snapshots =
        [[(''timestamp'', PStr ''2024-01-02T03:04:05Z''), (''balance'', PFloat 1000),
          (''equity'', PFloat 1001), (''floating'', PFloat 1)]]\<rparr>)"
proof -
  have a: "merge_history
     \<lparr>version = PInt 1,
      trades = [[(''ticket'', PStr ''7''), (''closed_at'', PStr ''2024-01-03T00:00:00Z'')]],
      snapshots = []\<rparr>
     [\<lparr>ticket = ''8'', symbol = PStr ''XAUUSD'', volume = 1 / 10, profit = 25 / 2,
       order_type = PStr ''buy'', comment = PNone, opened_at = None,
       closed_at = 1704164645000000, tp_label = PNone, sl_label = PNone\<rparr>,
      \<lparr>ticket = ''7'', symbol = PStr ''XAUUSD'', volume = 1 / 10, profit = 99,
       order_type = PStr ''sell'', comment = PNone, opened_at = None,
       closed_at = 1704164646000000, tp_label = PNone, sl_label = PNone\<rparr>]
     [\<lparr>timestamp = 1704164645500000, balance = 1000, equity = 1001, floating = 1\<rparr>]
   = Inr \<lparr>version = PInt 1,
      trades =
        [[(''ticket'', PStr ''8''), (''symbol'', PStr ''XAUUSD''), (''volume'', PFloat (1 / 10)),
          (''profit'', PFloat (25 / 2)), (''order_type'', PStr ''buy''), (''comment'', PNone),
          (''opened_at'', PNone), (''closed_at'', PStr ''2024-01-02T03:04:05Z''),
          (''tp_label'', PNone), (''sl_label'', PNone)],
         [(''ticket'', PStr ''7''), (''closed_at'', PStr ''2024-01-03T00:00:00Z'')]],
      snapshots =
        [[(''timestamp'', PStr ''2024-01-02T03:04:05Z''), (''balance'', PFloat 1000),
          (''equity'', PFloat 1001), (''floating'', PFloat 1)]]\<rparr>"
    by code_simp
  from a merge_history_sorted_when_appended[OF a] show ?thesis by simp
qed

text \<open>
  The claim as stated fails on a history file whose trades are out of order when the log
  brings nothing new: the list is returned as it was read.
\<close>

theorem merge_history_unsorted_counterexample:
  "merge_history
     \<lparr>version = PInt 1,
      trades = [[(''ticket'', PStr ''2''), (''closed_at'', PStr ''2024-01-03T00:00:00Z'')],
                [(''ticket'', PStr ''1''), (''closed_at'', PStr ''2024-01-02T00:00:00Z'')]],
      snapshots = []\<rparr> [] []
   = Inr \<lparr>version = PInt 1,
      trades = [[(''ticket'', PStr ''2''), (''closed_at'', PStr ''2024-01-03T00:00:00Z'')],
                [(''ticket'', PStr ''1''), (''closed_at'', PStr ''2024-01-02T00:00:00Z'')]],
      snapshots = []\<rparr>
   \<and> \<not> non_decreasing_by closed_at_key
      [[(''ticket'', PStr ''2''), (''closed_at'', PStr ''2024-01-03T00:00:00Z'')],
       [(''ticket'', PStr ''1''), (''closed_at'', PStr ''2024-01-02T00:00:00Z'')]]"
  by code_simp


section \<open>Which record a key keeps\<close>

lemma digit_not_plus: "digit n \<noteq> CHR ''+''"
proof
  assume "digit n = CHR ''+''"
  then have "(of_char (digit n) :: int) = of_char CHR ''+''" by simp
  then have "(48 + n mod 10) mod 256 = 43" by (simp add: digit_def)
  moreover have "0 \<le> n mod 10" "n mod 10 < 10" by simp_all
  ultimately show False by simp
qed

lemma isoformat_nonempty: "isoformat v \<noteq> []"
proof -
  obtain y m d where c: "civil_from_days (v div 1000000 div 86400) = (y, m, d)"
    by (metis prod_cases3)
  have "datetime_isoformat (v div 1000000) = digit (y div 1000) # tl (datetime_isoformat (v div 1000000))"
    by (simp add: datetime_isoformat_def c dec4_def Let_def)
  then obtain r where "datetime_isoformat (v div 1000000) = digit (y div 1000) # r" by blast
  then show ?thesis
    by (simp add: isoformat_def digit_not_plus)
qed

lemma append_new_trades_filter_seen:
  "PStr k \<in> E \<Longrightarrow> append_new_trades E acc ap T = (E', acc', ap') \<Longrightarrow>
     filter (\<lambda>e. get e ''ticket'' = PStr k) acc' = filter (\<lambda>e. get e ''ticket'' = PStr k) acc"
proof (induction T arbitrary: E acc ap)
  case Nil
  then show ?case by auto
next
  case (Cons t T)
  show ?case
  proof (cases "ticket t = [] \<or> py_in (PStr (ticket t)) E")
    case True
    with Cons.prems have "append_new_trades E acc ap T = (E', acc', ap')" by (simp add: Let_def)
    from Cons.IH[OF Cons.prems(1) this] show ?thesis .
  next
    case False
    with Cons.prems have *: "append_new_trades (insert (PStr (ticket t)) E)
        (acc @ [serialize_trade t]) True T = (E', acc', ap')" by (simp add: Let_def)
    from False Cons.prems(1) have "ticket t \<noteq> k" by (auto simp: py_in_PStr)
    moreover have "PStr k \<in> insert (PStr (ticket t)) E" using Cons.prems(1) by simp
    note Cons.IH[OF this *]
    ultimately show ?thesis by (simp add: get_serialize_trade_ticket)
  qed
qed

lemma append_new_trades_filter_new:
  "k \<noteq> [] \<Longrightarrow> PStr k \<notin> E \<Longrightarrow> find (\<lambda>t. ticket t = k) T = Some t \<Longrightarrow>
   append_new_trades E acc ap T = (E', acc', ap') \<Longrightarrow>
     filter (\<lambda>e. get e ''ticket'' = PStr k) acc'
       = filter (\<lambda>e. get e ''ticket'' = PStr k) acc @ [serialize_trade t]"
proof (induction T arbitrary: E acc ap)
  case Nil
  then show ?case by simp
next
  case (Cons x T)
  show ?case
  proof (cases "ticket x = k")
    case True
    with Cons.prems have tx: "t = x" by simp
    from True Cons.prems have *: "append_new_trades (insert (PStr k) E)
        (acc @ [serialize_trade x]) True T = (E', acc', ap')"
      by (simp add: Let_def py_in_PStr)
    have "PStr k \<in> insert (PStr k) E" by simp
    from append_new_trades_filter_seen[OF this *] True tx show ?thesis
      by (simp add: get_serialize_trade_ticket)
  next
    case False
    with Cons.prems have f: "find (\<lambda>t. ticket t = k) T = Some t" by simp
    show ?thesis
    proof (cases "ticket x = [] \<or> py_in (PStr (ticket x)) E")
      case True
      with Cons.prems have "append_new_trades E acc ap T = (E', acc', ap')"
        by (simp add: Let_def)
      from Cons.IH[OF Cons.prems(1,2) f this] show ?thesis .
    next
      case nin: False
      with Cons.prems have *: "append_new_trades (insert (PStr (ticket x)) E)
          (acc @ [serialize_trade x]) True T = (E', acc', ap')" by (simp add: Let_def)
      have "PStr k \<notin> insert (PStr (ticket x)) E" using False Cons.prems(2) by auto
      from Cons.IH[OF Cons.prems(1) this f *] False show ?thesis
        by (simp add: get_serialize_trade_ticket)
    qed
  qed
qed

lemma append_new_snapshots_filter_seen:
  "PStr k \<in> E \<Longrightarrow> append_new_snapshots E acc ap S = (E', acc', ap') \<Longrightarrow>
     filter (\<lambda>e. get e ''timestamp'' = PStr k) acc' = filter (\<lambda>e. get e ''timestamp'' = PStr k) acc"
proof (induction S arbitrary: E acc ap)
  case Nil
  then show ?case by auto
next
  case (Cons s S)
  let ?z = "isoformat (timestamp s)"
  show ?case
  proof (cases "PStr ?z \<in> E")
    case True
    with Cons.prems have "append_new_snapshots E acc ap S = (E', acc', ap')"
      by (simp add: Let_def get_serialize_snapshot_timestamp py_in_PStr)
    from Cons.IH[OF Cons.prems(1) this] show ?thesis .
  next
    case False
    with Cons.prems have *: "append_new_snapshots (insert (PStr ?z) E)
        (acc @ [serialize_snapshot s]) True S = (E', acc', ap')"
      by (simp add: Let_def get_serialize_snapshot_timestamp py_in_PStr isoformat_nonempty)
    from False Cons.prems(1) have "?z \<noteq> k" by auto
    moreover have "PStr k \<in> insert (PStr ?z) E" using Cons.prems(1) by simp
    note Cons.IH[OF this *]
    ultimately show ?thesis by (simp add: get_serialize_snapshot_timestamp)
  qed
qed

lemma append_new_snapshots_filter_new:
  "PStr k \<notin> E \<Longrightarrow> find (\<lambda>s. isoformat (timestamp s) = k) S = Some s \<Longrightarrow>
   append_new_snapshots E acc ap S = (E', acc', ap') \<Longrightarrow>
     filter (\<lambda>e. get e ''timestamp'' = PStr k) acc'
       = filter (\<lambda>e. get e ''timestamp'' = PStr k) acc @ [serialize_snapshot s]"
proof (induction S arbitrary: E acc ap)
  case Nil
  then show ?case by simp
next
  case (Cons x S)
  let ?z = "isoformat (timestamp x)"
  show ?case
  proof (cases "?z = k")
    case True
    with Cons.prems have tx: "s = x" by simp
    from True Cons.prems have *: "append_new_snapshots (insert (PStr k) E)
        (acc @ [serialize_snapshot x]) True S = (E', acc', ap')"
      using isoformat_nonempty[of "timestamp x"]
      by (simp add: Let_def get_serialize_snapshot_timestamp py_in_PStr)
    have "PStr k \<in> insert (PStr k) E" by simp
    from append_new_snapshots_filter_seen[OF this *] True tx show ?thesis
      by (simp add: get_serialize_snapshot_timestamp)
  next
    case False
    with Cons.prems have f: "find (\<lambda>s. isoformat (timestamp s) = k) S = Some s" by simp
    show ?thesis
    proof (cases "PStr ?z \<in> E")
      case True
      with Cons.prems have "append_new_snapshots E acc ap S = (E', acc', ap')"
        by (simp add: Let_def get_serialize_snapshot_timestamp py_in_PStr)
      from Cons.IH[OF Cons.prems(1) f this] show ?thesis .
    next
      case nin: False
      with Cons.prems have *: "append_new_snapshots (insert (PStr ?z) E)
          (acc @ [serialize_snapshot x]) True S = (E', acc', ap')"
        by (simp add: Let_def get_serialize_snapshot_timestamp py_in_PStr isoformat_nonempty)
      have "PStr k \<notin> insert (PStr ?z) E" using False Cons.prems(1) by auto
      from Cons.IH[OF this f *] False show ?thesis
        by (simp add: get_serialize_snapshot_timestamp)
    qed
  qed
qed

lemma sorted_or_same_mset:
  "(if ap then py_sort_by key xs else Inr xs) = Inr ys \<Longrightarrow> mset ys = mset xs"
  by (cases ap) (simp_all add: py_sort_by_mset)

lemma append_new_snapshots_append:
  "append_new_snapshots E acc ap (A @ B) =
     (case append_new_snapshots E acc ap A of (E', acc', ap') \<Rightarrow> append_new_snapshots E' acc' ap' B)"
  by (induction A arbitrary: E acc ap) (simp_all add: Let_def)

lemma append_new_snapshots_drop_later:
  assumes "s1 \<in> set A"
    and "get (serialize_snapshot s2) ''timestamp'' = get (serialize_snapshot s1) ''timestamp''"
  shows "append_new_snapshots E acc ap (A @ s2 # B) = append_new_snapshots E acc ap (A @ B)"
proof -
  obtain E' acc' ap' where a: "append_new_snapshots E acc ap A = (E', acc', ap')"
    by (metis prod_cases3)
  from append_new_snapshots_covered[OF a] assms
  have "\<not> truthy (get (serialize_snapshot s2) ''timestamp'')
      \<or> py_in (get (serialize_snapshot s2) ''timestamp'') E'" by auto
  then have "append_new_snapshots E' acc' ap' (s2 # B) = append_new_snapshots E' acc' ap' B"
    by (auto simp: Let_def)
  then show ?thesis by (simp add: append_new_snapshots_append a)
qed

lemma merge_history_trades_seen:
  assumes "merge_history h T S = Inr h1"
    and "PStr k \<in> (\<lambda>e. get e ''ticket'') ` set (trades h)"
  shows "{#e \<in># mset (trades h1). get e ''ticket'' = PStr k#}
       = {#e \<in># mset (trades h). get e ''ticket'' = PStr k#}"
proof -
  from assms(1) obtain E ts ap where
    a: "append_new_trades ((\<lambda>e. get e ''ticket'') ` set (trades h)) (trades h) False T = (E, ts, ap)"
    and c: "(if ap then py_sort_by closed_at_key ts else Inr ts) = Inr (trades h1)"
    by (rule merge_history_InrE)
  from sorted_or_same_mset[OF c] append_new_trades_filter_seen[OF assms(2) a]
  show ?thesis by (metis mset_filter)
qed

lemma merge_history_trades_new:
  assumes "merge_history h T S = Inr h1"
    and "k \<noteq> []" and "PStr k \<notin> (\<lambda>e. get e ''ticket'') ` set (trades h)"
    and "find (\<lambda>t. ticket t = k) T = Some t"
  shows "{#e \<in># mset (trades h1). get e ''ticket'' = PStr k#} = {#serialize_trade t#}"
proof -
  from assms(1) obtain E ts ap where
    a: "append_new_trades ((\<lambda>e. get e ''ticket'') ` set (trades h)) (trades h) False T = (E, ts, ap)"
    and c: "(if ap then py_sort_by closed_at_key ts else Inr ts) = Inr (trades h1)"
    by (rule merge_history_InrE)
  from assms(3) have "filter (\<lambda>e. get e ''ticket'' = PStr k) (trades h) = []"
    by (force simp: filter_empty_conv image_iff)
  with append_new_trades_filter_new[OF assms(2,3,4) a]
  have "filter (\<lambda>e. get e ''ticket'' = PStr k) ts = [serialize_trade t]" by simp
  then have "mset (filter (\<lambda>e. get e ''ticket'' = PStr k) ts) = {#serialize_trade t#}" by simp
  with sorted_or_same_mset[OF c] show ?thesis by (metis mset_filter)
qed

lemma merge_history_snapshots_seen:
  assumes "merge_history h T S = Inr h1"
    and "PStr z \<in> (\<lambda>e. get e ''timestamp'') ` set (snapshots h)"
  shows "{#e \<in># mset (snapshots h1). get e ''timestamp'' = PStr z#}
       = {#e \<in># mset (snapshots h). get e ''timestamp'' = PStr z#}"
proof -
  from assms(1) obtain E' ss ap' where
    b: "append_new_snapshots ((\<lambda>e. get e ''timestamp'') ` set (snapshots h)) (snapshots h) False S
       = (E', ss, ap')"
    and d: "(if ap' then py_sort_by timestamp_key ss else Inr ss) = Inr (snapshots h1)"
    by (rule merge_history_InrE)
  from sorted_or_same_mset[OF d] append_new_snapshots_filter_seen[OF assms(2) b]
  show ?thesis by (metis mset_filter)
qed

lemma merge_history_snapshots_new:
  assumes "merge_history h T S = Inr h1"
    and "PStr z \<notin> (\<lambda>e. get e ''timestamp'') ` set (snapshots h)"
    and "find (\<lambda>s. isoformat (timestamp s) = z) S = Some s"
  shows "{#e \<in># mset (snapshots h1). get e ''timestamp'' = PStr z#} = {#serialize_snapshot s#}"
proof -
  from assms(1) obtain E' ss ap' where
    b: "append_new_snapshots ((\<lambda>e. get e ''timestamp'') ` set (snapshots h)) (snapshots h) False S
       = (E', ss, ap')"
    and d: "(if ap' then py_sort_by timestamp_key ss else Inr ss) = Inr (snapshots h1)"
    by (rule merge_history_InrE)
  from assms(2) have "filter (\<lambda>e. get e ''timestamp'' = PStr z) (snapshots h) = []"
    by (force simp: filter_empty_conv image_iff)
  with append_new_snapshots_filter_new[OF assms(2,3) b]
  have "filter (\<lambda>e. get e ''timestamp'' = PStr z) ss = [serialize_snapshot s]" by simp
  then have "mset (filter (\<lambda>e. get e ''timestamp'' = PStr z) ss) = {#serialize_snapshot s#}"
    by simp
  with sorted_or_same_mset[OF d] show ?thesis by (metis mset_filter)
qed


text \<open>
  Claim C2 (first write wins on both keys). When \<open>merge_history\<close> returns: for a ticket
  that already occurs in the history, the entries stored under it are exactly those of
  the input history, unchanged (a new trade with that ticket, whatever its profit, adds
  and alters nothing); for a non-empty ticket that does not occur, the one entry stored is
  the serialization of the first new trade carrying it, so later trades with the same
  ticket are discarded. The same holds for snapshots and their serialized timestamp:
  the stored balance, equity and floating are those first seen.
\<close>

theorem merge_history_first_write_wins:
  assumes "merge_history h T S = Inr h1"
  shows "(PStr k \<in> (\<lambda>e. get e ''ticket'') ` set (trades h) \<longrightarrow>
            {#e \<in># mset (trades h1). get e ''ticket'' = PStr k#}
              = {#e \<in># mset (trades h). get e ''ticket'' = PStr k#})
       \<and> (k \<noteq> [] \<and> PStr k \<notin> (\<lambda>e. get e ''ticket'') ` set (trades h)
            \<and> find (\<lambda>t. ticket t = k) T = Some t \<longrightarrow>
            {#e \<in># mset (trades h1). get e ''ticket'' = PStr k#} = {#serialize_trade t#})
       \<and> (PStr z \<in> (\<lambda>e. get e ''timestamp'') ` set (snapshots h) \<longrightarrow>
            {#e \<in># mset (snapshots h1). get e ''timestamp'' = PStr z#}
              = {#e \<in># mset (snapshots h). get e ''timestamp'' = PStr z#})
       \<and> (PStr z \<notin> (\<lambda>e. get e ''timestamp'') ` set (snapshots h)
            \<and> find (\<lambda>s. isoformat (timestamp s) = z) S = Some s \<longrightarrow>
            {#e \<in># mset (snapshots h1). get e ''timestamp'' = PStr z#} = {#serialize_snapshot s#})"
  using merge_history_trades_seen[OF assms] merge_history_trades_new[OF assms]
    merge_history_snapshots_seen[OF assms] merge_history_snapshots_new[OF assms]
  by blast

theorem merge_history_first_write_wins_witness:
  "merge_history
      \<lparr>version = PInt 1,
       trades = [[(''ticket'', PStr ''7''), (''profit'', PFloat 1),
                  (''closed_at'', PStr ''2024-01-03T00:00:00Z'')]],
       snapshots = [[(''timestamp'', PStr ''2024-01-01T00:00:00Z''), (''balance'', PFloat 5)]]\<rparr>
      [\<lparr>ticket = ''8'', symbol = PStr ''XAUUSD'', volume = 1 / 10, profit = 25 / 2,
        order_type = PStr ''buy'', comment = PNone, opened_at = None,
        closed_at = 1704164645000000, tp_label = PNone, sl_label = PNone\<rparr>,
       \<lparr>ticket = ''7'', symbol = PStr ''XAUUSD'', volume = 1 / 10, profit = 99,
        order_type = PStr ''sell'', comment = PNone, opened_at = None,
        closed_at = 1704164646000000, tp_label = PNone, sl_label = PNone\<rparr>,
       \<lparr>ticket = ''8'', symbol = PStr ''XAUUSD'', volume = 1 / 10, profit = 77,
        order_type = PStr ''buy'', comment = PNone, opened_at = None,
        closed_at = 1704164647000000, tp_label = PNone, sl_label = PNone\<rparr>]
      [\<lparr>timestamp = 1704164645500000, balance = 1000, equity = 1000, floating = 0\<rparr>,
       \<lparr>timestamp = 1704164645900000, balance = 2000, equity = 2000, floating = 0\<rparr>,
       \<lparr>timestamp = 1704067200000000, balance = 9, equity = 9, floating = 0\<rparr>]
    = Inr \<lparr>version = PInt 1,
       trades = [[(''ticket'', PStr ''8''), (''symbol'', PStr ''XAUUSD''), (''volume'', PFloat (1 / 10)),
          (''profit'', PFloat (25 / 2)), (''order_type'', PStr ''buy''), (''comment'', PNone),
          (''opened_at'', PNone), (''closed_at'', PStr ''2024-01-02T03:04:05Z''),
          (''tp_label'', PNone), (''sl_label'', PNone)],
         [(''ticket'', PStr ''7''), (''profit'', PFloat 1), (''closed_at'', PStr ''2024-01-03T00:00:00Z'')]],
       snapshots = [[(''timestamp'', PStr ''2024-01-01T00:00:00Z''), (''balance'', PFloat 5)],
         [(''timestamp'', PStr ''2024-01-02T03:04:05Z''), (''balance'', PFloat 1000),
          (''equity'', PFloat 1000), (''floating'', PFloat 0)]]\<rparr>
   \<and> {#e \<in># mset [[(''ticket'', PStr ''8''), (''symbol'', PStr ''XAUUSD''), (''volume'', PFloat (1 / 10)),
          (''profit'', PFloat (25 / 2)), (''order_type'', PStr ''buy''), (''comment'', PNone),
          (''opened_at'', PNone), (''closed_at'', PStr ''2024-01-02T03:04:05Z''),
          (''tp_label'', PNone), (''sl_label'', PNone)],
         [(''ticket'', PStr ''7''), (''profit'', PFloat 1), (''closed_at'', PStr ''2024-01-03T00:00:00Z'')]]. get e ''ticket'' = PStr ''7''#}
       = {#[(''ticket'', PStr ''7''), (''profit'', PFloat 1), (''closed_at'', PStr ''2024-01-03T00:00:00Z'')]#}
   \<and> {#e \<in># mset [[(''ticket'', PStr ''8''), (''symbol'', PStr ''XAUUSD''), (''volume'', PFloat (1 / 10)),
          (''profit'', PFloat (25 / 2)), (''order_type'', PStr ''buy''), (''comment'', PNone),
          (''opened_at'', PNone), (''closed_at'', PStr ''2024-01-02T03:04:05Z''),
          (''tp_label'', PNone), (''sl_label'', PNone)],
         [(''ticket'', PStr ''7''), (''profit'', PFloat 1), (''closed_at'', PStr ''2024-01-03T00:00:00Z'')]]. get e ''ticket'' = PStr ''8''#}
       = {#[(''ticket'', PStr ''8''), (''symbol'', PStr ''XAUUSD''), (''volume'', PFloat (1 / 10)),
          (''profit'', PFloat (25 / 2)), (''order_type'', PStr ''buy''), (''comment'', PNone),
          (''opened_at'', PNone), (''closed_at'', PStr ''2024-01-02T03:04:05Z''),
          (''tp_label'', PNone), (''sl_label'', PNone)]#}
   \<and> {#e \<in># mset [[(''timestamp'', PStr ''2024-01-01T00:00:00Z''), (''balance'', PFloat 5)],
         [(''timestamp'', PStr ''2024-01-02T03:04:05Z''), (''balance'', PFloat 1000),
          (''equity'', PFloat 1000), (''floating'', PFloat 0)]]. get e ''timestamp'' = PStr ''2024-01-01T00:00:00Z''#}
       = {#[(''timestamp'', PStr ''2024-01-01T00:00:00Z''), (''balance'', PFloat 5)]#}
   \<and> {#e \<in># mset [[(''timestamp'', PStr ''2024-01-01T00:00:00Z''), (''balance'', PFloat 5)],
         [(''timestamp'', PStr ''2024-01-02T03:04:05Z''), (''balance'', PFloat 1000),
          (''equity'', PFloat 1000), (''floating'', PFloat 0)]]. get e ''timestamp'' = PStr ''2024-01-02T03:04:05Z''#}
       = {#[(''timestamp'', PStr ''2024-01-02T03:04:05Z''), (''balance'', PFloat 1000),
          (''equity'', PFloat 1000), (''floating'', PFloat 0)]#}"
proof -
  let ?h = "\<lparr>version = PInt 1,
       trades = [[(''ticket'', PStr ''7''), (''profit'', PFloat 1),
                  (''closed_at'', PStr ''2024-01-03T00:00:00Z'')]],
       snapshots = [[(''timestamp'', PStr ''2024-01-01T00:00:00Z''), (''balance'', PFloat 5)]]\<rparr>"
  let ?T = "[\<lparr>ticket = ''8'', symbol = PStr ''XAUUSD'', volume = 1 / 10, profit = 25 / 2,
        order_type = PStr ''buy'', comment = PNone, opened_at = None,
        closed_at = 1704164645000000, tp_label = PNone, sl_label = PNone\<rparr>,
       \<lparr>ticket = ''7'', symbol = PStr ''XAUUSD'', volume = 1 / 10, profit = 99,
        order_type = PStr ''sell'', comment = PNone, opened_at = None,
        closed_at = 1704164646000000, tp_label = PNone, sl_label = PNone\<rparr>,
       \<lparr>ticket = ''8'', symbol = PStr ''XAUUSD'', volume = 1 / 10, profit = 77,
        order_type = PStr ''buy'', comment = PNone, opened_at = None,
        closed_at = 1704164647000000, tp_label = PNone, sl_label = PNone\<rparr>]"
  let ?S = "[\<lparr>timestamp = 1704164645500000, balance = 1000, equity = 1000, floating = 0\<rparr>,
       \<lparr>timestamp = 1704164645900000, balance = 2000, equity = 2000, floating = 0\<rparr>,
       \<lparr>timestamp = 1704067200000000, balance = 9, equity = 9, floating = 0\<rparr>]"
  let ?h1 = "\<lparr>version = PInt 1,
       trades = [[(''ticket'', PStr ''8''), (''symbol'', PStr ''XAUUSD''), (''volume'', PFloat (1 / 10)),
          (''profit'', PFloat (25 / 2)), (''order_type'', PStr ''buy''), (''comment'', PNone),
          (''opened_at'', PNone), (''closed_at'', PStr ''2024-01-02T03:04:05Z''),
          (''tp_label'', PNone), (''sl_label'', PNone)],
         [(''ticket'', PStr ''7''), (''profit'', PFloat 1), (''closed_at'', PStr ''2024-01-03T00:00:00Z'')]],
       snapshots = [[(''timestamp'', PStr ''2024-01-01T00:00:00Z''), (''balance'', PFloat 5)],
         [(''timestamp'', PStr ''2024-01-02T03:04:05Z''), (''balance'', PFloat 1000),
          (''equity'', PFloat 1000), (''floating'', PFloat 0)]]\<rparr>"
  let ?t8 = "\<lparr>ticket = ''8'', symbol = PStr ''XAUUSD'', volume = 1 / 10, profit = 25 / 2,
        order_type = PStr ''buy'', comment = PNone, opened_at = None,
        closed_at = 1704164645000000, tp_label = PNone, sl_label = PNone\<rparr>"
  let ?sA = "\<lparr>timestamp = 1704164645500000, balance = 1000, equity = 1000, floating = 0\<rparr>"
  have a: "merge_history ?h ?T ?S = Inr ?h1"
    by code_simp
  have seen: "PStr ''7'' \<in> (\<lambda>e. get e ''ticket'') ` set (trades ?h)"
    by (simp add: get_def)
  have new: "''8'' \<noteq> [] \<and> PStr ''8'' \<notin> (\<lambda>e. get e ''ticket'') ` set (trades ?h)
      \<and> find (\<lambda>t. ticket t = ''8'') ?T = Some ?t8"
    by (simp add: get_def)
  have seen': "PStr ''2024-01-01T00:00:00Z'' \<in> (\<lambda>e. get e ''timestamp'') ` set (snapshots ?h)"
    by (simp add: get_def)
  have i: "isoformat 1704164645500000 = ''2024-01-02T03:04:05Z''"
    by code_simp
  have new': "PStr ''2024-01-02T03:04:05Z'' \<notin> (\<lambda>e. get e ''timestamp'') ` set (snapshots ?h)
      \<and> find (\<lambda>s. isoformat (timestamp s) = ''2024-01-02T03:04:05Z'') ?S = Some ?sA"
    by (simp add: get_def i)
  have st: "serialize_trade ?t8 = [(''ticket'', PStr ''8''), (''symbol'', PStr ''XAUUSD''), (''volume'', PFloat (1 / 10)),
          (''profit'', PFloat (25 / 2)), (''order_type'', PStr ''buy''), (''comment'', PNone),
          (''opened_at'', PNone), (''closed_at'', PStr ''2024-01-02T03:04:05Z''),
          (''tp_label'', PNone), (''sl_label'', PNone)]"
    by code_simp
  have ss: "serialize_snapshot ?sA = [(''timestamp'', PStr ''2024-01-02T03:04:05Z''), (''balance'', PFloat 1000),
          (''equity'', PFloat 1000), (''floating'', PFloat 0)]"
    by code_simp
  note w1 = merge_history_first_write_wins[OF a, where k = "''7''" and z = "''2024-01-01T00:00:00Z''"]
  note w2 = merge_history_first_write_wins[OF a, where k = "''8''" and z = "''2024-01-02T03:04:05Z''"
      and t = ?t8 and s = ?sA]
  from conjunct1[OF w1] seen have c1:
    "{#e \<in># mset (trades ?h1). get e ''ticket'' = PStr ''7''#}
       = {#e \<in># mset (trades ?h). get e ''ticket'' = PStr ''7''#}"
    by (rule mp)
  from conjunct1[OF conjunct2[OF w2]] new have c2:
    "{#e \<in># mset (trades ?h1). get e ''ticket'' = PStr ''8''#} = {#serialize_trade ?t8#}"
    by (rule mp)
  from conjunct1[OF conjunct2[OF conjunct2[OF w1]]] seen' have c3:
    "{#e \<in># mset (snapshots ?h1). get e ''timestamp'' = PStr ''2024-01-01T00:00:00Z''#}
       = {#e \<in># mset (snapshots ?h). get e ''timestamp'' = PStr ''2024-01-01T00:00:00Z''#}"
    by (rule mp)
  from conjunct2[OF conjunct2[OF conjunct2[OF w2]]] new' have c4:
    "{#e \<in># mset (snapshots ?h1). get e ''timestamp'' = PStr ''2024-01-02T03:04:05Z''#}
       = {#serialize_snapshot ?sA#}"
    by (rule mp)
  have e1: "{#e \<in># mset (trades ?h). get e ''ticket'' = PStr ''7''#} = {#[(''ticket'', PStr ''7''), (''profit'', PFloat 1), (''closed_at'', PStr ''2024-01-03T00:00:00Z'')]#}"
    by (simp add: get_def)
  have e3: "{#e \<in># mset (snapshots ?h). get e ''timestamp'' = PStr ''2024-01-01T00:00:00Z''#}
      = {#[(''timestamp'', PStr ''2024-01-01T00:00:00Z''), (''balance'', PFloat 5)]#}"
    by (simp add: get_def)
  from a c1[unfolded e1] c2[unfolded st] c3[unfolded e3] c4[unfolded ss]
  show ?thesis by simp
qed

text \<open>
  Claim C10 (snapshot dedup at one-second precision). Two snapshots whose timestamps fall
  in the same UTC second serialize to the same timestamp key, whatever their balance,
  equity and floating; the later of the two is discarded, the merge being the same with
  and without it; and when that key is not yet in the history and no earlier new
  snapshot has it, the one entry stored under the key is the first snapshot's.
\<close>

theorem snapshot_same_second_discarded:
  assumes "timestamp s1 div 1000000 = timestamp s2 div 1000000"
  shows "get (serialize_snapshot s2) ''timestamp'' = get (serialize_snapshot s1) ''timestamp''
       \<and> merge_history h T (S1 @ s1 # S2 @ s2 # S3) = merge_history h T (S1 @ s1 # S2 @ S3)
       \<and> (\<forall>h1. merge_history h T (S1 @ s1 # S2 @ s2 # S3) = Inr h1
             \<and> PStr (isoformat (timestamp s1)) \<notin> (\<lambda>e. get e ''timestamp'') ` set (snapshots h)
             \<and> (\<forall>s\<in>set S1. isoformat (timestamp s) \<noteq> isoformat (timestamp s1))
           \<longrightarrow> {#e \<in># mset (snapshots h1). get e ''timestamp'' = PStr (isoformat (timestamp s1))#}
                 = {#serialize_snapshot s1#})"
proof -
  have k: "get (serialize_snapshot s2) ''timestamp'' = get (serialize_snapshot s1) ''timestamp''"
    using assms by (simp add: get_serialize_snapshot_timestamp isoformat_def)
  have "s1 \<in> set (S1 @ s1 # S2)" by simp
  from append_new_snapshots_drop_later[OF this k]
  have "\<And>E acc ap. append_new_snapshots E acc ap ((S1 @ s1 # S2) @ s2 # S3)
      = append_new_snapshots E acc ap ((S1 @ s1 # S2) @ S3)" .
  then have e: "\<And>E acc ap. append_new_snapshots E acc ap (S1 @ s1 # S2 @ s2 # S3)
      = append_new_snapshots E acc ap (S1 @ s1 # S2 @ S3)" by simp
  have m: "merge_history h T (S1 @ s1 # S2 @ s2 # S3) = merge_history h T (S1 @ s1 # S2 @ S3)"
    unfolding merge_history_def e ..
  have f: "{#e \<in># mset (snapshots h1). get e ''timestamp'' = PStr (isoformat (timestamp s1))#}
                 = {#serialize_snapshot s1#}"
    if r: "merge_history h T (S1 @ s1 # S2 @ s2 # S3) = Inr h1"
      and n: "PStr (isoformat (timestamp s1)) \<notin> (\<lambda>e. get e ''timestamp'') ` set (snapshots h)"
      and fst: "\<forall>s\<in>set S1. isoformat (timestamp s) \<noteq> isoformat (timestamp s1)"
    for h1
  proof -
    from fst have "find (\<lambda>s. isoformat (timestamp s) = isoformat (timestamp s1))
        (S1 @ s1 # S2 @ s2 # S3) = Some s1"
      by (induction S1) auto
    from merge_history_snapshots_new[OF r n this] show ?thesis .
  qed
  from k m f show ?thesis by blast
qed

theorem snapshot_same_second_discarded_witness:
  "(1704164645500000 :: int) div 1000000 = 1704164645900000 div 1000000
   \<and> merge_history \<lparr>version = PInt 1, trades = [], snapshots = []\<rparr> []
       [\<lparr>timestamp = 1704164645500000, balance = 1000, equity = 1000, floating = 0\<rparr>,
        \<lparr>timestamp = 1704164645900000, balance = 2000, equity = 2000, floating = 0\<rparr>]
     = merge_history \<lparr>version = PInt 1, trades = [], snapshots = []\<rparr> []
       [\<lparr>timestamp = 1704164645500000, balance = 1000, equity = 1000, floating = 0\<rparr>]
   \<and> merge_history \<lparr>version = PInt 1, trades = [], snapshots = []\<rparr> []
       [\<lparr>timestamp = 1704164645500000, balance = 1000, equity = 1000, floating = 0\<rparr>,
        \<lparr>timestamp = 1704164645900000, balance = 2000, equity = 2000, floating = 0\<rparr>]
     = Inr \<lparr>version = PInt 1, trades = [],
       snapshots = [[(''timestamp'', PStr ''2024-01-02T03:04:05Z''), (''balance'', PFloat 1000),
          (''equity'', PFloat 1000), (''floating'', PFloat 0)]]\<rparr>
   \<and> {#e \<in># mset [[(''timestamp'', PStr ''2024-01-02T03:04:05Z''), (''balance'', PFloat 1000),
          (''equity'', PFloat 1000), (''floating'', PFloat 0)]]. get e ''timestamp'' = PStr ''2024-01-02T03:04:05Z''#}
     = {#[(''timestamp'', PStr ''2024-01-02T03:04:05Z''), (''balance'', PFloat 1000),
          (''equity'', PFloat 1000), (''floating'', PFloat 0)]#}"
proof -
  let ?h = "\<lparr>version = PInt 1, trades = [], snapshots = []\<rparr>"
  let ?sA = "\<lparr>timestamp = 1704164645500000, balance = 1000, equity = 1000, floating = 0\<rparr>"
  let ?sB = "\<lparr>timestamp = 1704164645900000, balance = 2000, equity = 2000, floating = 0\<rparr>"
  let ?r = "\<lparr>version = PInt 1, trades = [],
       snapshots = [[(''timestamp'', PStr ''2024-01-02T03:04:05Z''), (''balance'', PFloat 1000),
          (''equity'', PFloat 1000), (''floating'', PFloat 0)]]\<rparr>"
  have d: "timestamp ?sA div 1000000 = timestamp ?sB div 1000000" by simp
  have a: "merge_history ?h [] [?sA, ?sB] = Inr ?r" by code_simp
  have i: "isoformat (timestamp ?sA) = ''2024-01-02T03:04:05Z''" by code_simp
  have ss: "serialize_snapshot ?sA = [(''timestamp'', PStr ''2024-01-02T03:04:05Z''), (''balance'', PFloat 1000),
          (''equity'', PFloat 1000), (''floating'', PFloat 0)]"
    by code_simp
  note w = snapshot_same_second_discarded[OF d, where h = ?h and T = "[]" and ?S1.0 = "[]"
      and ?S2.0 = "[]" and ?S3.0 = "[]"]
  from w have "merge_history ?h [] [?sA, ?sB] = merge_history ?h [] [?sA]" by simp
  moreover from w a have
    "{#e \<in># mset (snapshots ?r). get e ''timestamp'' = PStr (isoformat (timestamp ?sA))#}
       = {#serialize_snapshot ?sA#}"
    by simp
  ultimately show ?thesis using a unfolding i ss by simp
qed


section \<open>Properties of the normalizer\<close>

text \<open>
  Claim C8 (normalizer leniency), evaluated on two log entries. A \<open>profit\<close> that is
  \<open>null\<close> is not replaced by 0.0: \<open>float\<close> raises \<open>TypeError\<close> and \<open>normalize_trade\<close>
  returns no record. A \<open>timestamp\<close> that is no ISO date is not replaced by the log
  line's timestamp: the parser raises \<open>ValueError\<close> and \<open>normalize_snapshot\<close> returns
  no record. Only an absent numeric field and a missing timestamp get their default.
\<close>

theorem normalizer_raises_on_malformed_field:
  "normalize_trade
      \<lparr>fromisoformat = (\<lambda>s. None), float_of_str = (\<lambda>s. None), repr_float = (\<lambda>x. [])\<rparr>
      \<lparr>payload = [(''type'', PStr ''trade''), (''ticket'', PInt 7), (''profit'', PNone)],
       log_timestamp = 1704200000000000\<rparr>
    = Inl TypeError
   \<and> normalize_snapshot
      \<lparr>fromisoformat = (\<lambda>s. None), float_of_str = (\<lambda>s. None), repr_float = (\<lambda>x. [])\<rparr>
      \<lparr>payload = [(''type'', PStr ''snapshot''), (''timestamp'', PStr ''yesterday'')],
       log_timestamp = 1704200000000000\<rparr>
    = Inl ValueError"
  by (simp add: normalize_trade_def normalize_snapshot_def parse_iso_datetime_def get_def
      get_default_def)

text \<open>
  Claim C9 (ticket-based drop), evaluated on a log entry without a \<open>ticket\<close> field: the
  normalizer turns the missing ticket into the text \<open>None\<close>, which is not empty, and the
  merge stores the trade under it. A trade whose ticket is the empty string is dropped.
\<close>

theorem missing_ticket_is_stored:
  "normalize_trade
      \<lparr>fromisoformat = (\<lambda>s. None), float_of_str = (\<lambda>s. None), repr_float = (\<lambda>x. [])\<rparr>
      \<lparr>payload = [(''type'', PStr ''trade''), (''symbol'', PStr ''XAUUSD''), (''profit'', PFloat 5)],
       log_timestamp = 1704164645000000\<rparr>
    = Inr \<lparr>ticket = ''None'', symbol = PStr ''XAUUSD'', volume = 0, profit = 5,
       order_type = PNone, comment = PNone, opened_at = None,
       closed_at = 1704164645000000, tp_label = PNone, sl_label = PNone\<rparr>
   \<and> merge_history \<lparr>version = PInt 1, trades = [], snapshots = []\<rparr>
      [\<lparr>ticket = ''None'', symbol = PStr ''XAUUSD'', volume = 0, profit = 5,
       order_type = PNone, comment = PNone, opened_at = None,
       closed_at = 1704164645000000, tp_label = PNone, sl_label = PNone\<rparr>] []
    = Inr \<lparr>version = PInt 1,
       trades = [[(''ticket'', PStr ''None''), (''symbol'', PStr ''XAUUSD''), (''volume'', PFloat 0),
                  (''profit'', PFloat 5), (''order_type'', PNone), (''comment'', PNone),
                  (''opened_at'', PNone), (''closed_at'', PStr ''2024-01-02T03:04:05Z''),
                  (''tp_label'', PNone), (''sl_label'', PNone)]],
       snapshots = []\<rparr>
   \<and> merge_history \<lparr>version = PInt 1, trades = [], snapshots = []\<rparr>
      [\<lparr>ticket = [], symbol = PStr ''XAUUSD'', volume = 0, profit = 5,
       order_type = PNone, comment = PNone, opened_at = None,
       closed_at = 1704164645000000, tp_label = PNone, sl_label = PNone\<rparr>] []
    = Inr \<lparr>version = PInt 1, trades = [], snapshots = []\<rparr>"
proof -
  have "normalize_trade
      \<lparr>fromisoformat = (\<lambda>s. None), float_of_str = (\<lambda>s. None), repr_float = (\<lambda>x. [])\<rparr>
      \<lparr>payload = [(''type'', PStr ''trade''), (''symbol'', PStr ''XAUUSD''), (''profit'', PFloat 5)],
       log_timestamp = 1704164645000000\<rparr>
    = Inr \<lparr>ticket = ''None'', symbol = PStr ''XAUUSD'', volume = 0, profit = 5,
       order_type = PNone, comment = PNone, opened_at = None,
       closed_at = 1704164645000000, tp_label = PNone, sl_label = PNone\<rparr>"
    by (simp add: normalize_trade_def parse_iso_datetime_def get_def get_default_def py_or_def)
  moreover have "merge_history \<lparr>version = PInt 1, trades = [], snapshots = []\<rparr>
      [\<lparr>ticket = ''None'', symbol = PStr ''XAUUSD'', volume = 0, profit = 5,
       order_type = PNone, comment = PNone, opened_at = None,
       closed_at = 1704164645000000, tp_label = PNone, sl_label = PNone\<rparr>] []
    = Inr \<lparr>version = PInt 1,
       trades = [[(''ticket'', PStr ''None''), (''symbol'', PStr ''XAUUSD''), (''volume'', PFloat 0),
                  (''profit'', PFloat 5), (''order_type'', PNone), (''comment'', PNone),
                  (''opened_at'', PNone), (''closed_at'', PStr ''2024-01-02T03:04:05Z''),
                  (''tp_label'', PNone), (''sl_label'', PNone)]],
       snapshots = []\<rparr>"
    by code_simp
  moreover have "merge_history \<lparr>version = PInt 1, trades = [], snapshots = []\<rparr>
      [\<lparr>ticket = [], symbol = PStr ''XAUUSD'', volume = 0, profit = 5,
       order_type = PNone, comment = PNone, opened_at = None,
       closed_at = 1704164645000000, tp_label = PNone, sl_label = PNone\<rparr>] []
    = Inr \<lparr>version = PInt 1, trades = [], snapshots = []\<rparr>"
    by code_simp
  ultimately show ?thesis by simp
qed


section \<open>Properties of the aggregation\<close>

text \<open>
  Claim C7 (exit classification). \<open>determine_exit_type\<close> is the first match of the
  ordered rule list (take-profit label, take-profit hint in the exit reason, take-profit
  hint in the comment, stop-loss label, stop-loss hint in the exit reason, stop-loss hint
  in the comment), \<open>manual\<close> when no rule matches: a take-profit label that is set yields
  \<open>tp\<close> whatever the comment holds, each of the three take-profit checks decides before
  any stop-loss check is made, and a trade matching no rule, like no trade at all, is
  \<open>manual\<close>. A label is set when it is true for Python (not \<open>None\<close>, not empty).
\<close>

theorem determine_exit_type_priority:
  "determine_exit_type lib (Some t) = first_match (exit_rules lib t) ''manual''
   \<and> (truthy (tp_label t) \<longrightarrow> determine_exit_type lib (Some t) = ''tp'')
   \<and> (truthy (tp_label t) \<or> contains_hint lib (exit_reason t) TP_REASON_HINTS
        \<or> contains_hint lib (comment t) TP_COMMENT_HINTS
       \<longrightarrow> determine_exit_type lib (Some t) = ''tp'')
   \<and> (\<not> truthy (tp_label t) \<and> \<not> contains_hint lib (exit_reason t) TP_REASON_HINTS
        \<and> \<not> contains_hint lib (comment t) TP_COMMENT_HINTS
        \<and> \<not> truthy (sl_label t) \<and> \<not> contains_hint lib (exit_reason t) SL_REASON_HINTS
        \<and> \<not> contains_hint lib (comment t) SL_COMMENT_HINTS
       \<longrightarrow> determine_exit_type lib (Some t) = ''manual'')
   \<and> determine_exit_type lib None = ''manual''"
  by (simp add: determine_exit_type_def first_match_def exit_rules_def DEFAULT_EXIT_TYPE_def)

theorem determine_exit_type_priority_witness:
  "truthy (tp_label \<lparr>ticket = PStr ''1'', symbol = PStr ''XAUUSD'', volume = 1 / 10, profit = 10,
        order_type = PStr ''buy'', comment = PStr ''Closed: SL hit'', opened_at = None,
        closed_at = 1704164645000000, tp_label = PStr ''TP1'', sl_label = PNone,
        exit_reason = PNone\<rparr>)
   \<and> contains_hint \<lparr>fromisoformat = (\<lambda>s. None), float_of_str = (\<lambda>s. None), repr_float = (\<lambda>x. [])\<rparr>
       (PStr ''Closed: SL hit'') SL_COMMENT_HINTS
   \<and> determine_exit_type \<lparr>fromisoformat = (\<lambda>s. None), float_of_str = (\<lambda>s. None), repr_float = (\<lambda>x. [])\<rparr>
       (Some \<lparr>ticket = PStr ''1'', symbol = PStr ''XAUUSD'', volume = 1 / 10, profit = 10,
        order_type = PStr ''buy'', comment = PStr ''Closed: SL hit'', opened_at = None,
        closed_at = 1704164645000000, tp_label = PStr ''TP1'', sl_label = PNone,
        exit_reason = PNone\<rparr>) = ''tp''
   \<and> determine_exit_type \<lparr>fromisoformat = (\<lambda>s. None), float_of_str = (\<lambda>s. None), repr_float = (\<lambda>x. [])\<rparr>
       (Some \<lparr>ticket = PStr ''2'', symbol = PStr ''XAUUSD'', volume = 1 / 10, profit = 10,
        order_type = PStr ''buy'', comment = PStr ''scalp'', opened_at = None,
        closed_at = 1704164645000000, tp_label = PNone, sl_label = PNone,
        exit_reason = PNone\<rparr>) = ''manual''"
proof -
  let ?lib = "\<lparr>fromisoformat = (\<lambda>s. None), float_of_str = (\<lambda>s. None), repr_float = (\<lambda>x. [])\<rparr>"
  let ?a = "\<lparr>ticket = PStr ''1'', symbol = PStr ''XAUUSD'', volume = 1 / 10, profit = 10,
        order_type = PStr ''buy'', comment = PStr ''Closed: SL hit'', opened_at = None,
        closed_at = 1704164645000000, tp_label = PStr ''TP1'', sl_label = PNone,
        exit_reason = PNone\<rparr>"
  let ?b = "\<lparr>ticket = PStr ''2'', symbol = PStr ''XAUUSD'', volume = 1 / 10, profit = 10,
        order_type = PStr ''buy'', comment = PStr ''scalp'', opened_at = None,
        closed_at = 1704164645000000, tp_label = PNone, sl_label = PNone,
        exit_reason = PNone\<rparr>"
  have 1: "truthy (tp_label ?a)" by simp
  have 2: "contains_hint ?lib (PStr ''Closed: SL hit'') SL_COMMENT_HINTS" by code_simp
  have 3: "\<not> contains_hint ?lib (PStr ''scalp'') TP_COMMENT_HINTS" by code_simp
  have 4: "\<not> contains_hint ?lib (PStr ''scalp'') SL_COMMENT_HINTS" by code_simp
  have 5: "\<not> truthy (tp_label ?b) \<and> \<not> contains_hint ?lib (exit_reason ?b) TP_REASON_HINTS
        \<and> \<not> contains_hint ?lib (comment ?b) TP_COMMENT_HINTS
        \<and> \<not> truthy (sl_label ?b) \<and> \<not> contains_hint ?lib (exit_reason ?b) SL_REASON_HINTS
        \<and> \<not> contains_hint ?lib (comment ?b) SL_COMMENT_HINTS"
    using 3 4 by (simp add: contains_hint_def)
  from determine_exit_type_priority[of ?lib ?a] 1
  have "determine_exit_type ?lib (Some ?a) = ''tp''" by blast
  moreover from determine_exit_type_priority[of ?lib ?b] 5
  have "determine_exit_type ?lib (Some ?b) = ''manual''" by blast
  ultimately show ?thesis using 1 2 by simp
qed


subsection \<open>The overall summary\<close>

lemma sum_list_ones: "sum_list (map (\<lambda>t. 1) xs) = int (length xs)"
  by (induction xs) simp_all

lemma summarize_trades_nonempty:
  "ts \<noteq> [] \<Longrightarrow> summarize_trades fl ts = Inr (overall_summary_spec fl ts)"
proof -
  assume ne: "ts \<noteq> []"
  then have "int (length ts) \<noteq> 0" by simp
  with ne show ?thesis
    by (simp add: summarize_trades_def overall_summary_spec_def py_truediv_def
        sum_list_ones Let_def)
qed

lemma summarize_trades_empty:
  "summarize_trades fl ([] :: 'k trade list) =
     Inr \<lparr>profit_sum = 0, trade_count = 0, wins = 0, losses = 0, win_rate = 0\<rparr>"
  by (simp add: summarize_trades_def)

lemma summarize_trades_returns: "\<exists>s. summarize_trades fl ts = Inr s"
  by (cases "ts = []") (simp_all add: summarize_trades_empty summarize_trades_nonempty)

text \<open>
  Claim C5. For every trade list \<open>summarize_trades\<close> returns a summary and raises nothing.
  For a list that is not empty the summary is the reference one: the number of trades, the
  sum of the profits rounded to 2 decimals, the number of trades with a profit above 0, the
  number with a profit below 0, and the win rate \<open>wins / count * 100\<close> rounded to 2 decimals,
  each float operation being the one of the interpreter (\<open>fl\<close>). For the empty list the
  summary has profit 0, zero counts and win rate 0, with no division; it is the reference
  summary as soon as the sum of no profit rounds to 0, which it does in Python.
\<close>

theorem summarize_trades_matches_spec:
  "(\<exists>s. summarize_trades fl (ts :: 'k trade list) = Inr s)
   \<and> (ts \<noteq> [] \<longrightarrow> summarize_trades fl ts = Inr (overall_summary_spec fl ts))
   \<and> summarize_trades fl ([] :: 'k trade list) =
       Inr \<lparr>profit_sum = 0, trade_count = 0, wins = 0, losses = 0, win_rate = 0\<rparr>
   \<and> (f_round fl (f_sum fl []) 2 = 0 \<longrightarrow>
         summarize_trades fl ([] :: 'k trade list)
           = Inr (overall_summary_spec fl ([] :: 'k trade list)))"
proof -
  have e: "summarize_trades fl ([] :: 'k trade list) =
       Inr \<lparr>profit_sum = 0, trade_count = 0, wins = 0, losses = 0, win_rate = 0\<rparr>"
    by (rule summarize_trades_empty)
  have s: "overall_summary_spec fl ([] :: 'k trade list) =
       \<lparr>profit_sum = 0, trade_count = 0, wins = 0, losses = 0, win_rate = 0\<rparr>"
    if "f_round fl (f_sum fl []) 2 = 0"
    using that by (simp add: overall_summary_spec_def)
  have r: "\<exists>s. summarize_trades fl ts = Inr s" by (rule summarize_trades_returns)
  have n: "ts \<noteq> [] \<longrightarrow> summarize_trades fl ts = Inr (overall_summary_spec fl ts)"
    by (simp add: summarize_trades_nonempty)
  from e s r n show ?thesis by simp
qed

theorem summarize_trades_matches_spec_witness:
  "summarize_trades
      \<lparr>f_sum = sum_list, f_add = (\<lambda>x y. x + y), f_mul = (\<lambda>x y. x * y),
       f_truediv = (\<lambda>a b. of_int a / of_int b), f_round = py_round\<rparr>
      [\<lparr>ticket = PStr ''1'', symbol = PStr ''XAUUSD'', volume = 1 / 2, profit = 10,
        order_type = PStr ''buy'', comment = PNone, opened_at = None,
        closed_at = 1704164645000000, tp_label = PNone, sl_label = PNone,
        exit_reason = PNone\<rparr>,
       \<lparr>ticket = PStr ''2'', symbol = PStr ''EURUSD'', volume = 1 / 2, profit = - 5,
        order_type = PStr ''buy'', comment = PNone, opened_at = None,
        closed_at = 1704164646000000, tp_label = PNone, sl_label = PNone,
        exit_reason = PNone\<rparr>,
       \<lparr>ticket = PStr ''3'', symbol = PStr ''XAUUSD'', volume = 1 / 2, profit = 1 / 2,
        order_type = PStr ''buy'', comment = PNone, opened_at = None,
        closed_at = 1704164647000000, tp_label = PNone, sl_label = PNone,
        exit_reason = PNone\<rparr>,
       \<lparr>ticket = PStr ''4'', symbol = PStr ''XAUUSD'', volume = 1 / 2, profit = 0,
        order_type = PStr ''buy'', comment = PNone, opened_at = None,
        closed_at = 1704164648000000, tp_label = PNone, sl_label = PNone,
        exit_reason = PNone\<rparr>]
    = Inr \<lparr>profit_sum = 11 / 2, trade_count = 4, wins = 2, losses = 1, win_rate = 50\<rparr>
   \<and> summarize_trades
      \<lparr>f_sum = sum_list, f_add = (\<lambda>x y. x + y), f_mul = (\<lambda>x y. x * y),
       f_truediv = (\<lambda>a b. of_int a / of_int b), f_round = py_round\<rparr>
      ([] :: pyval trade list)
    = Inr (overall_summary_spec
      \<lparr>f_sum = sum_list, f_add = (\<lambda>x y. x + y), f_mul = (\<lambda>x y. x * y),
       f_truediv = (\<lambda>a b. of_int a / of_int b), f_round = py_round\<rparr>
      ([] :: pyval trade list))"
proof -
  let ?fl = "\<lparr>f_sum = sum_list, f_add = (\<lambda>x y. x + y), f_mul = (\<lambda>x y. x * y),
       f_truediv = (\<lambda>a b. of_int a / of_int b), f_round = py_round\<rparr>"
  let ?ts = "[\<lparr>ticket = PStr ''1'', symbol = PStr ''XAUUSD'', volume = 1 / 2, profit = 10,
        order_type = PStr ''buy'', comment = PNone, opened_at = None,
        closed_at = 1704164645000000, tp_label = PNone, sl_label = PNone,
        exit_reason = PNone\<rparr>,
       \<lparr>ticket = PStr ''2'', symbol = PStr ''EURUSD'', volume = 1 / 2, profit = - 5,
        order_type = PStr ''buy'', comment = PNone, opened_at = None,
        closed_at = 1704164646000000, tp_label = PNone, sl_label = PNone,
        exit_reason = PNone\<rparr>,
       \<lparr>ticket = PStr ''3'', symbol = PStr ''XAUUSD'', volume = 1 / 2, profit = 1 / 2,
        order_type = PStr ''buy'', comment = PNone, opened_at = None,
        closed_at = 1704164647000000, tp_label = PNone, sl_label = PNone,
        exit_reason = PNone\<rparr>,
       \<lparr>ticket = PStr ''4'', symbol = PStr ''XAUUSD'', volume = 1 / 2, profit = 0,
        order_type = PStr ''buy'', comment = PNone, opened_at = None,
        closed_at = 1704164648000000, tp_label = PNone, sl_label = PNone,
        exit_reason = PNone\<rparr>]"
  note claim = summarize_trades_matches_spec[of ?fl ?ts]
  have "?ts \<noteq> []" by simp
  with claim have 1: "summarize_trades ?fl ?ts = Inr (overall_summary_spec ?fl ?ts)" by blast
  have 2: "overall_summary_spec ?fl ?ts
      = \<lparr>profit_sum = 11 / 2, trade_count = 4, wins = 2, losses = 1, win_rate = 50\<rparr>"
    by code_simp
  have "f_round ?fl (f_sum ?fl []) 2 = 0" by (simp add: py_round_def)
  with claim have 3: "summarize_trades ?fl ([] :: pyval trade list)
      = Inr (overall_summary_spec ?fl ([] :: pyval trade list))" by blast
  from 1 2 3 show ?thesis by simp
qed


subsection \<open>The rolling windows\<close>

lemma foldl_first_max:
  assumes "\<forall>a\<in>set pre. (f :: 'a \<Rightarrow> rat) a < f b" and "\<forall>a\<in>set post. f a \<le> f b"
  shows "\<exists>pre' post'. pre @ b # post @ xs
           = pre' @ foldl (\<lambda>best y. if f best < f y then y else best) b xs # post'
         \<and> (\<forall>a\<in>set pre'. f a < f (foldl (\<lambda>best y. if f best < f y then y else best) b xs))
         \<and> (\<forall>a\<in>set post'. f a \<le> f (foldl (\<lambda>best y. if f best < f y then y else best) b xs))"
  using assms
proof (induction xs arbitrary: pre b post)
  case Nil
  then show ?case by auto
next
  case (Cons y ys)
  show ?case
  proof (cases "f b < f y")
    case True
    have 1: "\<forall>a\<in>set (pre @ b # post). f a < f y"
    proof
      fix a assume "a \<in> set (pre @ b # post)"
      then consider "a \<in> set pre" | "a = b" | "a \<in> set post" by auto
      then show "f a < f y"
      proof cases
        case 1
        with Cons.prems(1) have "f a < f b" by blast
        with True show ?thesis by linarith
      next
        case 2
        with True show ?thesis by simp
      next
        case 3
        with Cons.prems(2) have "f a \<le> f b" by blast
        with True show ?thesis by linarith
      qed
    qed
    have 2: "\<forall>a\<in>set ([] :: 'a list). f a \<le> f y" by simp
    from Cons.IH[OF 1 2] True show ?thesis by simp
  next
    case False
    have 2: "\<forall>a\<in>set (post @ [y]). f a \<le> f b"
      using Cons.prems(2) False by auto
    from Cons.IH[OF Cons.prems(1) 2] False show ?thesis by simp
  qed
qed

lemma foldl_first_min:
  assumes "\<forall>a\<in>set pre. (f :: 'a \<Rightarrow> rat) b < f a" and "\<forall>a\<in>set post. f b \<le> f a"
  shows "\<exists>pre' post'. pre @ b # post @ xs
           = pre' @ foldl (\<lambda>best y. if f y < f best then y else best) b xs # post'
         \<and> (\<forall>a\<in>set pre'. f (foldl (\<lambda>best y. if f y < f best then y else best) b xs) < f a)
         \<and> (\<forall>a\<in>set post'. f (foldl (\<lambda>best y. if f y < f best then y else best) b xs) \<le> f a)"
  using assms
proof (induction xs arbitrary: pre b post)
  case Nil
  then show ?case by auto
next
  case (Cons y ys)
  show ?case
  proof (cases "f y < f b")
    case True
    have 1: "\<forall>a\<in>set (pre @ b # post). f y < f a"
    proof
      fix a assume "a \<in> set (pre @ b # post)"
      then consider "a \<in> set pre" | "a = b" | "a \<in> set post" by auto
      then show "f y < f a"
      proof cases
        case 1
        with Cons.prems(1) have "f b < f a" by blast
        with True show ?thesis by linarith
      next
        case 2
        with True show ?thesis by simp
      next
        case 3
        with Cons.prems(2) have "f b \<le> f a" by blast
        with True show ?thesis by linarith
      qed
    qed
    have 2: "\<forall>a\<in>set ([] :: 'a list). f y \<le> f a" by simp
    from Cons.IH[OF 1 2] True show ?thesis by simp
  next
    case False
    have 2: "\<forall>a\<in>set (post @ [y]). f b \<le> f a"
      using Cons.prems(2) False by auto
    from Cons.IH[OF Cons.prems(1) 2] False show ?thesis by simp
  qed
qed

lemma py_max_by_first:
  assumes "xs \<noteq> []"
  shows "\<exists>m. is_first_max f xs m \<and> py_max_by f xs = Some m"
proof -
  from assms obtain x ys where xs: "xs = x # ys" by (cases xs) auto
  have "\<forall>a\<in>set ([] :: 'a list). f a < f x" "\<forall>a\<in>set ([] :: 'a list). f a \<le> f x" by simp_all
  from foldl_first_max[OF this, of ys]
  have "is_first_max f (x # ys) (foldl (\<lambda>best y. if f best < f y then y else best) x ys)"
    unfolding is_first_max_def by simp
  then show ?thesis by (simp add: xs)
qed

lemma py_min_by_first:
  assumes "xs \<noteq> []"
  shows "\<exists>m. is_first_min f xs m \<and> py_min_by f xs = Some m"
proof -
  from assms obtain x ys where xs: "xs = x # ys" by (cases xs) auto
  have "\<forall>a\<in>set ([] :: 'a list). f x < f a" "\<forall>a\<in>set ([] :: 'a list). f x \<le> f a" by simp_all
  from foldl_first_min[OF this, of ys]
  have "is_first_min f (x # ys) (foldl (\<lambda>best y. if f y < f best then y else best) x ys)"
    unfolding is_first_min_def by simp
  then show ?thesis by (simp add: xs)
qed

lemma summarize_trades_eta:
  "summarize_trades fl ts = Inr s \<Longrightarrow>
     summarize_trades fl ts =
       Inr \<lparr>profit_sum = profit_sum s, trade_count = trade_count s, wins = wins s,
            losses = losses s, win_rate = win_rate s\<rparr>"
  by simp

lemma build_window_spec:
  "\<exists>w. build_window lib fl now ts days = Inr w \<and> window_spec lib fl now ts days w"
proof -
  let ?wt = "filter (\<lambda>t. now - days * 86400000000 \<le> closed_at t) ts"
  obtain s where s: "summarize_trades fl ?wt = Inr s"
    using summarize_trades_returns by blast
  let ?w = "\<lparr>profit_sum = profit_sum s, trade_count = trade_count s, wins = wins s,
             losses = losses s, win_rate = win_rate s,
             best_trade = summarize_single_trade lib fl (py_max_by profit ?wt) False,
             worst_trade = summarize_single_trade lib fl (py_min_by profit ?wt) False\<rparr>"
  have b: "build_window lib fl now ts days = Inr ?w"
    by (simp add: build_window_def timedelta_days_def s Let_def)
  have 1: "summarize_trades fl ?wt =
       Inr \<lparr>profit_sum = profit_sum ?w, trade_count = trade_count ?w, wins = wins ?w,
            losses = losses ?w, win_rate = win_rate ?w\<rparr>"
    using summarize_trades_eta[OF s] by simp
  have 2: "?wt = [] \<longrightarrow> best_trade ?w = None \<and> worst_trade ?w = None"
    by (simp add: summarize_single_trade_def)
  have 3: "\<exists>m. is_first_max profit ?wt m
           \<and> best_trade ?w = summarize_single_trade lib fl (Some m) False" if "?wt \<noteq> []"
    using py_max_by_first[OF that, of profit] by auto
  have 4: "\<exists>m. is_first_min profit ?wt m
           \<and> worst_trade ?w = summarize_single_trade lib fl (Some m) False" if "?wt \<noteq> []"
    using py_min_by_first[OF that, of profit] by auto
  have "window_spec lib fl now ts days ?w"
    unfolding window_spec_def Let_def using 1 2 3 4 by blast
  with b show ?thesis by blast
qed

lemma build_windows_three:
  assumes "build_window lib fl now ts 7 = Inr w7"
    and "build_window lib fl now ts 30 = Inr w30"
    and "build_window lib fl now ts 365 = Inr w365"
  shows "build_windows lib fl now ts = Inr [(''7d'', w7), (''30d'', w30), (''365d'', w365)]"
  by (simp add: build_windows_def WINDOWS_def assms)

lemma window_spec_profit:
  assumes "window_spec lib fl now ts days w"
    and "filter (\<lambda>t. now - days * 86400000000 \<le> closed_at t) ts = wt" and "wt \<noteq> []"
  shows "profit_sum w = f_round fl (f_sum fl (map profit wt)) 2"
proof -
  from assms(1,2) have "summarize_trades fl wt =
       Inr \<lparr>profit_sum = profit_sum w, trade_count = trade_count w, wins = wins w,
            losses = losses w, win_rate = win_rate w\<rparr>"
    by (simp add: window_spec_def Let_def)
  with summarize_trades_nonempty[OF assms(3), of fl] show ?thesis
    by (simp add: overall_summary_spec_def)
qed

text \<open>
  Claim C4. \<open>build_windows\<close> returns the three windows \<open>7d\<close>, \<open>30d\<close> and \<open>365d\<close>, in that
  order, and raises nothing. The window of \<open>N\<close> days summarizes exactly the trades with
  \<open>closed_at \<ge> now - N days\<close>: its five figures are the overall summary of those trades;
  when there is none, best and worst trade are absent; otherwise the best trade is the
  first trade of the window, in the order of the list, whose profit is the maximum, and
  the worst trade the first whose profit is the minimum (\<open>window_spec\<close>). For three trades
  closed 400, 10 and 1 days before \<open>now\<close> with profits 1000, -5 and 10 the sums of the
  windows are 10, 5 and 5, given that the float sum and rounding of the interpreter are exact
  on these small integers.
\<close>

theorem build_windows_correct:
  "(\<exists>w7 w30 w365.
       build_windows lib fl now ts = Inr [(''7d'', w7), (''30d'', w30), (''365d'', w365)]
       \<and> window_spec lib fl now ts 7 w7
       \<and> window_spec lib fl now ts 30 w30
       \<and> window_spec lib fl now ts 365 w365)
   \<and> (map closed_at ts
         = [now - 400 * 86400000000, now - 10 * 86400000000, now - 1 * 86400000000]
       \<and> map profit ts = [1000, - 5, 10]
       \<and> f_sum fl [10] = 10 \<and> f_sum fl [- 5, 10] = 5
       \<and> f_round fl 10 2 = 10 \<and> f_round fl 5 2 = 5
      \<longrightarrow> (\<exists>w7 w30 w365.
             build_windows lib fl now ts = Inr [(''7d'', w7), (''30d'', w30), (''365d'', w365)]
             \<and> profit_sum w7 = 10 \<and> profit_sum w30 = 5 \<and> profit_sum w365 = 5))"
proof -
  obtain w7 where w7: "build_window lib fl now ts 7 = Inr w7" "window_spec lib fl now ts 7 w7"
    using build_window_spec by blast
  obtain w30 where w30: "build_window lib fl now ts 30 = Inr w30" "window_spec lib fl now ts 30 w30"
    using build_window_spec by blast
  obtain w365 where w365: "build_window lib fl now ts 365 = Inr w365"
      "window_spec lib fl now ts 365 w365"
    using build_window_spec by blast
  have all: "build_windows lib fl now ts = Inr [(''7d'', w7), (''30d'', w30), (''365d'', w365)]"
    by (rule build_windows_three[OF w7(1) w30(1) w365(1)])
  have ex: "profit_sum w7 = 10 \<and> profit_sum w30 = 5 \<and> profit_sum w365 = 5"
    if c: "map closed_at ts
         = [now - 400 * 86400000000, now - 10 * 86400000000, now - 1 * 86400000000]"
      and p: "map profit ts = [1000, - 5, 10]"
      and s1: "f_sum fl [10] = 10" and s2: "f_sum fl [- 5, 10] = 5"
      and r1: "f_round fl 10 2 = 10" and r2: "f_round fl 5 2 = 5"
  proof -
    from c obtain a b d where ts: "ts = [a, b, d]"
      and ca: "closed_at a = now - 400 * 86400000000"
      and cb: "closed_at b = now - 10 * 86400000000"
      and cd: "closed_at d = now - 1 * 86400000000"
      by (auto simp: map_eq_Cons_conv)
    from p ts have pa: "profit a = 1000" and pb: "profit b = - 5" and pd: "profit d = 10"
      by simp_all
    have f7: "filter (\<lambda>t. now - 7 * 86400000000 \<le> closed_at t) ts = [d]"
      by (simp add: ts ca cb cd)
    have f30: "filter (\<lambda>t. now - 30 * 86400000000 \<le> closed_at t) ts = [b, d]"
      by (simp add: ts ca cb cd)
    have f365: "filter (\<lambda>t. now - 365 * 86400000000 \<le> closed_at t) ts = [b, d]"
      by (simp add: ts ca cb cd)
    from window_spec_profit[OF w7(2) f7] have "profit_sum w7 = 10"
      by (simp add: pd s1 r1)
    moreover from window_spec_profit[OF w30(2) f30] have "profit_sum w30 = 5"
      by (simp add: pb pd s2 r2)
    moreover from window_spec_profit[OF w365(2) f365] have "profit_sum w365 = 5"
      by (simp add: pb pd s2 r2)
    ultimately show ?thesis by simp
  qed
  have A: "\<exists>w7 w30 w365.
       build_windows lib fl now ts = Inr [(''7d'', w7), (''30d'', w30), (''365d'', w365)]
       \<and> window_spec lib fl now ts 7 w7
       \<and> window_spec lib fl now ts 30 w30
       \<and> window_spec lib fl now ts 365 w365"
    using all w7(2) w30(2) w365(2) by (intro exI conjI)
  have B: "map closed_at ts
         = [now - 400 * 86400000000, now - 10 * 86400000000, now - 1 * 86400000000]
       \<and> map profit ts = [1000, - 5, 10]
       \<and> f_sum fl [10] = 10 \<and> f_sum fl [- 5, 10] = 5
       \<and> f_round fl 10 2 = 10 \<and> f_round fl 5 2 = 5
      \<longrightarrow> (\<exists>w7 w30 w365.
             build_windows lib fl now ts = Inr [(''7d'', w7), (''30d'', w30), (''365d'', w365)]
             \<and> profit_sum w7 = 10 \<and> profit_sum w30 = 5 \<and> profit_sum w365 = 5)"
  proof (intro impI, elim conjE)
    assume "map closed_at ts
         = [now - 400 * 86400000000, now - 10 * 86400000000, now - 1 * 86400000000]"
      "map profit ts = [1000, - 5, 10]" "f_sum fl [10] = 10" "f_sum fl [- 5, 10] = 5"
      "f_round fl 10 2 = 10" "f_round fl 5 2 = 5"
    from ex[OF this] all
    show "\<exists>w7 w30 w365.
             build_windows lib fl now ts = Inr [(''7d'', w7), (''30d'', w30), (''365d'', w365)]
             \<and> profit_sum w7 = 10 \<and> profit_sum w30 = 5 \<and> profit_sum w365 = 5"
      by (intro exI[of _ w7] exI[of _ w30] exI[of _ w365]) simp
  qed
  from A B show ?thesis by (rule conjI)
qed

theorem build_windows_correct_witness:
  "build_windows
      \<lparr>fromisoformat = (\<lambda>s. None), float_of_str = (\<lambda>s. None), repr_float = (\<lambda>x. [])\<rparr>
      \<lparr>f_sum = sum_list, f_add = (\<lambda>x y. x + y), f_mul = (\<lambda>x y. x * y),
       f_truediv = (\<lambda>a b. of_int a / of_int b), f_round = py_round\<rparr>
      1706745600000000
      [\<lparr>ticket = PStr ''1'', symbol = PStr ''XAUUSD'', volume = 1 / 2, profit = 1000,
        order_type = PStr ''buy'', comment = PNone, opened_at = None,
        closed_at = 1672185600000000, tp_label = PNone, sl_label = PNone,
        exit_reason = PNone\<rparr>,
       \<lparr>ticket = PStr ''2'', symbol = PStr ''EURUSD'', volume = 1 / 2, profit = - 5,
        order_type = PStr ''sell'', comment = PNone, opened_at = None,
        closed_at = 1705881600000000, tp_label = PNone, sl_label = PNone,
        exit_reason = PNone\<rparr>,
       \<lparr>ticket = PStr ''3'', symbol = PStr ''XAUUSD'', volume = 1 / 2, profit = 10,
        order_type = PStr ''buy'', comment = PNone, opened_at = None,
        closed_at = 1706659200000000, tp_label = PNone, sl_label = PNone,
        exit_reason = PNone\<rparr>]
    = Inr [(''7d'', \<lparr>profit_sum = 10, trade_count = 1, wins = 1, losses = 0, win_rate = 100,
         best_trade = Some \<lparr>ts_ticket = PStr ''3'', ts_symbol = PStr ''XAUUSD'', ts_profit = 10,
              ts_volume = 1 / 2, ts_order_type = ''BUY'',
              ts_closed_at = Some ''2024-01-31T00:00:00Z'', ts_exit = ''Exit Manual'',
              ts_exit_type = ''manual'', ts_comment = None\<rparr>,
         worst_trade = Some \<lparr>ts_ticket = PStr ''3'', ts_symbol = PStr ''XAUUSD'', ts_profit = 10,
              ts_volume = 1 / 2, ts_order_type = ''BUY'',
              ts_closed_at = Some ''2024-01-31T00:00:00Z'', ts_exit = ''Exit Manual'',
              ts_exit_type = ''manual'', ts_comment = None\<rparr>\<rparr>),
       (''30d'', \<lparr>profit_sum = 5, trade_count = 2, wins = 1, losses = 1, win_rate = 50,
         best_trade = Some \<lparr>ts_ticket = PStr ''3'', ts_symbol = PStr ''XAUUSD'', ts_profit = 10,
              ts_volume = 1 / 2, ts_order_type = ''BUY'',
              ts_closed_at = Some ''2024-01-31T00:00:00Z'', ts_exit = ''Exit Manual'',
              ts_exit_type = ''manual'', ts_comment = None\<rparr>,
         worst_trade = Some \<lparr>ts_ticket = PStr ''2'', ts_symbol = PStr ''EURUSD'', ts_profit = - 5,
              ts_volume = 1 / 2, ts_order_type = ''SELL'',
              ts_closed_at = Some ''2024-01-22T00:00:00Z'', ts_exit = ''Exit Manual'',
              ts_exit_type = ''manual'', ts_comment = None\<rparr>\<rparr>),
       (''365d'', \<lparr>profit_sum = 5, trade_count = 2, wins = 1, losses = 1, win_rate = 50,
         best_trade = Some \<lparr>ts_ticket = PStr ''3'', ts_symbol = PStr ''XAUUSD'', ts_profit = 10,
              ts_volume = 1 / 2, ts_order_type = ''BUY'',
              ts_closed_at = Some ''2024-01-31T00:00:00Z'', ts_exit = ''Exit Manual'',
              ts_exit_type = ''manual'', ts_comment = None\<rparr>,
         worst_trade = Some \<lparr>ts_ticket = PStr ''2'', ts_symbol = PStr ''EURUSD'', ts_profit = - 5,
              ts_volume = 1 / 2, ts_order_type = ''SELL'',
              ts_closed_at = Some ''2024-01-22T00:00:00Z'', ts_exit = ''Exit Manual'',
              ts_exit_type = ''manual'', ts_comment = None\<rparr>\<rparr>)]
   \<and> window_spec
      \<lparr>fromisoformat = (\<lambda>s. None), float_of_str = (\<lambda>s. None), repr_float = (\<lambda>x. [])\<rparr>
      \<lparr>f_sum = sum_list, f_add = (\<lambda>x y. x + y), f_mul = (\<lambda>x y. x * y),
       f_truediv = (\<lambda>a b. of_int a / of_int b), f_round = py_round\<rparr>
      1706745600000000
      [\<lparr>ticket = PStr ''1'', symbol = PStr ''XAUUSD'', volume = 1 / 2, profit = 1000,
        order_type = PStr ''buy'', comment = PNone, opened_at = None,
        closed_at = 1672185600000000, tp_label = PNone, sl_label = PNone,
        exit_reason = PNone\<rparr>,
       \<lparr>ticket = PStr ''2'', symbol = PStr ''EURUSD'', volume = 1 / 2, profit = - 5,
        order_type = PStr ''sell'', comment = PNone, opened_at = None,
        closed_at = 1705881600000000, tp_label = PNone, sl_label = PNone,
        exit_reason = PNone\<rparr>,
       \<lparr>ticket = PStr ''3'', symbol = PStr ''XAUUSD'', volume = 1 / 2, profit = 10,
        order_type = PStr ''buy'', comment = PNone, opened_at = None,
        closed_at = 1706659200000000, tp_label = PNone, sl_label = PNone,
        exit_reason = PNone\<rparr>]
      7 \<lparr>profit_sum = 10, trade_count = 1, wins = 1, losses = 0, win_rate = 100,
         best_trade = Some \<lparr>ts_ticket = PStr ''3'', ts_symbol = PStr ''XAUUSD'', ts_profit = 10,
              ts_volume = 1 / 2, ts_order_type = ''BUY'',
              ts_closed_at = Some ''2024-01-31T00:00:00Z'', ts_exit = ''Exit Manual'',
              ts_exit_type = ''manual'', ts_comment = None\<rparr>,
         worst_trade = Some \<lparr>ts_ticket = PStr ''3'', ts_symbol = PStr ''XAUUSD'', ts_profit = 10,
              ts_volume = 1 / 2, ts_order_type = ''BUY'',
              ts_closed_at = Some ''2024-01-31T00:00:00Z'', ts_exit = ''Exit Manual'',
              ts_exit_type = ''manual'', ts_comment = None\<rparr>\<rparr>
   \<and> profit_sum \<lparr>profit_sum = 10, trade_count = 1, wins = 1, losses = 0, win_rate = 100,
         best_trade = Some \<lparr>ts_ticket = PStr ''3'', ts_symbol = PStr ''XAUUSD'', ts_profit = 10,
              ts_volume = 1 / 2, ts_order_type = ''BUY'',
              ts_closed_at = Some ''2024-01-31T00:00:00Z'', ts_exit = ''Exit Manual'',
              ts_exit_type = ''manual'', ts_comment = None\<rparr>,
         worst_trade = Some \<lparr>ts_ticket = PStr ''3'', ts_symbol = PStr ''XAUUSD'', ts_profit = 10,
              ts_volume = 1 / 2, ts_order_type = ''BUY'',
              ts_closed_at = Some ''2024-01-31T00:00:00Z'', ts_exit = ''Exit Manual'',
              ts_exit_type = ''manual'', ts_comment = None\<rparr>\<rparr> = 10
   \<and> profit_sum \<lparr>profit_sum = 5, trade_count = 2, wins = 1, losses = 1, win_rate = 50,
         best_trade = Some \<lparr>ts_ticket = PStr ''3'', ts_symbol = PStr ''XAUUSD'', ts_profit = 10,
              ts_volume = 1 / 2, ts_order_type = ''BUY'',
              ts_closed_at = Some ''2024-01-31T00:00:00Z'', ts_exit = ''Exit Manual'',
              ts_exit_type = ''manual'', ts_comment = None\<rparr>,
         worst_trade = Some \<lparr>ts_ticket = PStr ''2'', ts_symbol = PStr ''EURUSD'', ts_profit = - 5,
              ts_volume = 1 / 2, ts_order_type = ''SELL'',
              ts_closed_at = Some ''2024-01-22T00:00:00Z'', ts_exit = ''Exit Manual'',
              ts_exit_type = ''manual'', ts_comment = None\<rparr>\<rparr> = 5
   \<and> profit_sum \<lparr>profit_sum = 5, trade_count = 2, wins = 1, losses = 1, win_rate = 50,
         best_trade = Some \<lparr>ts_ticket = PStr ''3'', ts_symbol = PStr ''XAUUSD'', ts_profit = 10,
              ts_volume = 1 / 2, ts_order_type = ''BUY'',
              ts_closed_at = Some ''2024-01-31T00:00:00Z'', ts_exit = ''Exit Manual'',
              ts_exit_type = ''manual'', ts_comment = None\<rparr>,
         worst_trade = Some \<lparr>ts_ticket = PStr ''2'', ts_symbol = PStr ''EURUSD'', ts_profit = - 5,
              ts_volume = 1 / 2, ts_order_type = ''SELL'',
              ts_closed_at = Some ''2024-01-22T00:00:00Z'', ts_exit = ''Exit Manual'',
              ts_exit_type = ''manual'', ts_comment = None\<rparr>\<rparr> = 5"
proof -
  let ?lib = "\<lparr>fromisoformat = (\<lambda>s. None), float_of_str = (\<lambda>s. None), repr_float = (\<lambda>x. [])\<rparr>"
  let ?fl = "\<lparr>f_sum = sum_list, f_add = (\<lambda>x y. x + y), f_mul = (\<lambda>x y. x * y),
       f_truediv = (\<lambda>a b. of_int a / of_int b), f_round = py_round\<rparr>"
  let ?ts = "[\<lparr>ticket = PStr ''1'', symbol = PStr ''XAUUSD'', volume = 1 / 2, profit = 1000,
        order_type = PStr ''buy'', comment = PNone, opened_at = None,
        closed_at = 1672185600000000, tp_label = PNone, sl_label = PNone,
        exit_reason = PNone\<rparr>,
       \<lparr>ticket = PStr ''2'', symbol = PStr ''EURUSD'', volume = 1 / 2, profit = - 5,
        order_type = PStr ''sell'', comment = PNone, opened_at = None,
        closed_at = 1705881600000000, tp_label = PNone, sl_label = PNone,
        exit_reason = PNone\<rparr>,
       \<lparr>ticket = PStr ''3'', symbol = PStr ''XAUUSD'', volume = 1 / 2, profit = 10,
        order_type = PStr ''buy'', comment = PNone, opened_at = None,
        closed_at = 1706659200000000, tp_label = PNone, sl_label = PNone,
        exit_reason = PNone\<rparr>]"
  let ?w7 = "\<lparr>profit_sum = 10, trade_count = 1, wins = 1, losses = 0, win_rate = 100,
         best_trade = Some \<lparr>ts_ticket = PStr ''3'', ts_symbol = PStr ''XAUUSD'', ts_profit = 10,
              ts_volume = 1 / 2, ts_order_type = ''BUY'',
              ts_closed_at = Some ''2024-01-31T00:00:00Z'', ts_exit = ''Exit Manual'',
              ts_exit_type = ''manual'', ts_comment = None\<rparr>,
         worst_trade = Some \<lparr>ts_ticket = PStr ''3'', ts_symbol = PStr ''XAUUSD'', ts_profit = 10,
              ts_volume = 1 / 2, ts_order_type = ''BUY'',
              ts_closed_at = Some ''2024-01-31T00:00:00Z'', ts_exit = ''Exit Manual'',
              ts_exit_type = ''manual'', ts_comment = None\<rparr>\<rparr>"
  let ?w30 = "\<lparr>profit_sum = 5, trade_count = 2, wins = 1, losses = 1, win_rate = 50,
         best_trade = Some \<lparr>ts_ticket = PStr ''3'', ts_symbol = PStr ''XAUUSD'', ts_profit = 10,
              ts_volume = 1 / 2, ts_order_type = ''BUY'',
              ts_closed_at = Some ''2024-01-31T00:00:00Z'', ts_exit = ''Exit Manual'',
              ts_exit_type = ''manual'', ts_comment = None\<rparr>,
         worst_trade = Some \<lparr>ts_ticket = PStr ''2'', ts_symbol = PStr ''EURUSD'', ts_profit = - 5,
              ts_volume = 1 / 2, ts_order_type = ''SELL'',
              ts_closed_at = Some ''2024-01-22T00:00:00Z'', ts_exit = ''Exit Manual'',
              ts_exit_type = ''manual'', ts_comment = None\<rparr>\<rparr>"
  have e: "build_windows ?lib ?fl 1706745600000000 ?ts
      = Inr [(''7d'', ?w7), (''30d'', ?w30), (''365d'', ?w30)]"
    by code_simp
  note claim = build_windows_correct[of ?lib ?fl 1706745600000000 ?ts]
  from conjunct1[OF claim] obtain w7 w30 w365 where
    r: "build_windows ?lib ?fl 1706745600000000 ?ts = Inr [(''7d'', w7), (''30d'', w30), (''365d'', w365)]"
    and s: "window_spec ?lib ?fl 1706745600000000 ?ts 7 w7"
    by blast
  from r e have "w7 = ?w7" by simp
  with s have spec: "window_spec ?lib ?fl 1706745600000000 ?ts 7 ?w7" by simp
  have r1: "py_round 10 2 = 10" by code_simp
  have r2: "py_round 5 2 = 5" by code_simp
  have h: "map closed_at ?ts
         = [1706745600000000 - 400 * 86400000000, 1706745600000000 - 10 * 86400000000,
            1706745600000000 - 1 * 86400000000]
       \<and> map profit ?ts = [1000, - 5, 10]
       \<and> f_sum ?fl [10] = 10 \<and> f_sum ?fl [- 5, 10] = 5
       \<and> f_round ?fl 10 2 = 10 \<and> f_round ?fl 5 2 = 5"
    by (simp add: r1 r2)
  from mp[OF conjunct2[OF claim] h] obtain v7 v30 v365 where
    r': "build_windows ?lib ?fl 1706745600000000 ?ts = Inr [(''7d'', v7), (''30d'', v30), (''365d'', v365)]"
    and p: "profit_sum v7 = 10" "profit_sum v30 = 5" "profit_sum v365 = 5"
    by blast
  from r' e have v7: "v7 = ?w7" by simp
  from r' e have v30: "v30 = ?w30" by simp
  from p(1) have p7: "profit_sum ?w7 = 10" by (simp only: v7)
  from p(2) have p30: "profit_sum ?w30 = 5" by (simp only: v30)
  from e spec p7 p30 show ?thesis by simp
qed


subsection \<open>The ranking by symbol\<close>

lemma py_eq_sym: "py_eq a b \<Longrightarrow> py_eq b a"
  by (cases a; cases b) (auto simp: py_eq_def split: if_splits)

lemma py_eq_trans: "py_eq a b \<Longrightarrow> py_eq b c \<Longrightarrow> py_eq a c"
  by (cases a; cases b; cases c) (auto simp: py_eq_def split: if_splits)

lemma first_symbols_snoc:
  "first_symbols (ss @ [s]) =
     (if list_ex (\<lambda>k. py_eq s k) (first_symbols ss) then first_symbols ss
      else first_symbols ss @ [s])"
  by (simp add: first_symbols_def)

lemma first_symbols_inv:
  "distinct (first_symbols ss)
   \<and> (\<forall>a\<in>set (first_symbols ss). \<forall>b\<in>set (first_symbols ss). py_eq a b \<longrightarrow> a = b)
   \<and> (\<forall>s\<in>set ss. \<exists>k\<in>set (first_symbols ss). py_eq s k)"
proof (induction ss rule: rev_induct)
  case Nil
  show ?case by (simp add: first_symbols_def)
next
  case (snoc s ss)
  let ?F = "first_symbols ss"
  from snoc have d: "distinct ?F"
    and u: "\<And>a b. a \<in> set ?F \<Longrightarrow> b \<in> set ?F \<Longrightarrow> py_eq a b \<Longrightarrow> a = b"
    and c: "\<And>x. x \<in> set ss \<Longrightarrow> \<exists>k\<in>set ?F. py_eq x k"
    by blast+
  show ?case
  proof (cases "list_ex (\<lambda>k. py_eq s k) ?F")
    case True
    then have f: "first_symbols (ss @ [s]) = ?F" by (simp add: first_symbols_snoc)
    from True have "\<exists>k\<in>set ?F. py_eq s k" by (simp add: list_ex_iff)
    with d u c show ?thesis unfolding f by auto
  next
    case False
    then have f: "first_symbols (ss @ [s]) = ?F @ [s]" by (simp add: first_symbols_snoc)
    from False have n: "\<And>k. k \<in> set ?F \<Longrightarrow> \<not> py_eq s k" by (simp add: list_ex_iff)
    have n': "\<And>k. k \<in> set ?F \<Longrightarrow> \<not> py_eq k s" using n py_eq_sym by blast
    have "s \<notin> set ?F" using n py_eq_refl by blast
    with d have 1: "distinct (?F @ [s])" by simp
    have 2: "\<forall>a\<in>set (?F @ [s]). \<forall>b\<in>set (?F @ [s]). py_eq a b \<longrightarrow> a = b"
      using u n n' by auto
    have 3: "\<forall>x\<in>set (ss @ [s]). \<exists>k\<in>set (?F @ [s]). py_eq x k"
      using c py_eq_refl by auto
    from 1 2 3 show ?thesis unfolding f by blast
  qed
qed

lemma add_trade_no_match:
  "\<forall>k\<in>set F. \<not> py_eq (symbol t) (b_symbol (g k)) \<Longrightarrow>
     add_trade fl t (map g F) =
       map g F @ [bump fl t \<lparr>b_symbol = symbol t, b_profit = 0, b_trades = 0, b_wins = 0,
                              b_losses = 0, rank = None\<rparr>]"
  by (induction F) simp_all

lemma add_trade_match:
  assumes "distinct F"
    and "\<And>a b. a \<in> set F \<Longrightarrow> b \<in> set F \<Longrightarrow> py_eq a b \<Longrightarrow> a = b"
    and "\<exists>k\<in>set F. py_eq (symbol t) k"
    and "\<And>k. b_symbol (g k) = k"
  shows "add_trade fl t (map g F) =
           map (\<lambda>k. if py_eq (symbol t) k then bump fl t (g k) else g k) F"
  using assms(1,2,3)
proof (induction F)
  case Nil
  then show ?case by simp
next
  case (Cons k F)
  show ?case
  proof (cases "py_eq (symbol t) k")
    case True
    have "\<not> py_eq (symbol t) r" if r: "r \<in> set F" for r
    proof
      assume "py_eq (symbol t) r"
      with True have "py_eq k r" using py_eq_sym py_eq_trans by blast
      with Cons.prems(2)[of k r] r have "k = r" by simp
      with Cons.prems(1) r show False by simp
    qed
    then have "map (\<lambda>k. if py_eq (symbol t) k then bump fl t (g k) else g k) F = map g F"
      by (intro map_cong) simp_all
    with True show ?thesis by (simp add: assms(4))
  next
    case False
    with Cons.prems(3) have m: "\<exists>k\<in>set F. py_eq (symbol t) k" by auto
    from Cons.prems(1) have d: "distinct F" by simp
    have u: "\<And>a b. a \<in> set F \<Longrightarrow> b \<in> set F \<Longrightarrow> py_eq a b \<Longrightarrow> a = b"
      using Cons.prems(2) by simp
    from Cons.IH[OF d u m] False show ?thesis by (simp add: assms(4))
  qed
qed

lemma group_of_symbol: "b_symbol (group_of fl ts k) = k"
  by (simp add: group_of_def Let_def)

lemma group_of_snoc:
  "group_of fl (P @ [t]) k =
     (if py_eq (symbol t) k then bump fl t (group_of fl P k) else group_of fl P k)"
  by (simp add: group_of_def bump_def Let_def)

lemma group_of_fresh:
  assumes "\<forall>p\<in>set P. \<not> py_eq (symbol p) (symbol t)"
  shows "group_of fl P (symbol t) =
     \<lparr>b_symbol = symbol t, b_profit = 0, b_trades = 0, b_wins = 0, b_losses = 0, rank = None\<rparr>"
proof -
  from assms have "filter (\<lambda>p. py_eq (symbol p) (symbol t)) P = []"
    by (simp add: filter_empty_conv)
  then show ?thesis by (simp add: group_of_def Let_def)
qed

lemma symbol_stats_snoc:
  "symbol_stats fl (P @ [t]) = add_trade fl t (symbol_stats fl P)"
  by (simp add: symbol_stats_def)

lemma symbol_stats_groups:
  "symbol_stats fl ts = map (group_of fl ts) (first_symbols (map symbol ts))"
proof (induction ts rule: rev_induct)
  case Nil
  show ?case by (simp add: symbol_stats_def first_symbols_def)
next
  case (snoc t P)
  let ?F = "first_symbols (map symbol P)"
  note inv = first_symbols_inv[of "map symbol P"]
  from inv have d: "distinct ?F"
    and u: "\<And>a b. a \<in> set ?F \<Longrightarrow> b \<in> set ?F \<Longrightarrow> py_eq a b \<Longrightarrow> a = b"
    and c: "\<And>p. p \<in> set P \<Longrightarrow> \<exists>k\<in>set ?F. py_eq (symbol p) k"
    by auto
  have st: "symbol_stats fl (P @ [t]) = add_trade fl t (map (group_of fl P) ?F)"
    by (simp add: symbol_stats_snoc snoc.IH)
  show ?case
  proof (cases "list_ex (\<lambda>k. py_eq (symbol t) k) ?F")
    case True
    then have f: "first_symbols (map symbol (P @ [t])) = ?F"
      by (simp add: first_symbols_snoc)
    from True have m: "\<exists>k\<in>set ?F. py_eq (symbol t) k" by (simp add: list_ex_iff)
    have "add_trade fl t (map (group_of fl P) ?F)
        = map (\<lambda>k. if py_eq (symbol t) k then bump fl t (group_of fl P k) else group_of fl P k) ?F"
      by (rule add_trade_match[OF d u m group_of_symbol])
    also have "\<dots> = map (group_of fl (P @ [t])) ?F"
      by (simp add: group_of_snoc)
    finally show ?thesis by (simp only: st f)
  next
    case False
    then have f: "first_symbols (map symbol (P @ [t])) = ?F @ [symbol t]"
      by (simp add: first_symbols_snoc)
    from False have n: "\<And>k. k \<in> set ?F \<Longrightarrow> \<not> py_eq (symbol t) k" by (simp add: list_ex_iff)
    have fresh: "\<forall>p\<in>set P. \<not> py_eq (symbol p) (symbol t)"
    proof
      fix p assume p: "p \<in> set P"
      from c[OF p] obtain k where k: "k \<in> set ?F" "py_eq (symbol p) k" by blast
      show "\<not> py_eq (symbol p) (symbol t)"
      proof
        assume "py_eq (symbol p) (symbol t)"
        then have "py_eq (symbol t) (symbol p)" by (rule py_eq_sym)
        from py_eq_trans[OF this k(2)] n[OF k(1)] show False by simp
      qed
    qed
    have a: "add_trade fl t (map (group_of fl P) ?F)
        = map (group_of fl P) ?F
          @ [bump fl t \<lparr>b_symbol = symbol t, b_profit = 0, b_trades = 0, b_wins = 0,
                         b_losses = 0, rank = None\<rparr>]"
      by (rule add_trade_no_match) (simp add: group_of_symbol n)
    have b: "map (group_of fl P) ?F = map (group_of fl (P @ [t])) ?F"
      by (intro map_cong) (simp_all add: group_of_snoc n)
    have c: "bump fl t \<lparr>b_symbol = symbol t, b_profit = 0, b_trades = 0, b_wins = 0,
                         b_losses = 0, rank = None\<rparr> = group_of fl (P @ [t]) (symbol t)"
      by (simp add: group_of_snoc py_eq_refl group_of_fresh[OF fresh])
    have "symbol_stats fl (P @ [t]) = map (group_of fl P) ?F
          @ [bump fl t \<lparr>b_symbol = symbol t, b_profit = 0, b_trades = 0, b_wins = 0,
                         b_losses = 0, rank = None\<rparr>]"
      by (simp only: st a)
    also have "\<dots> = map (group_of fl (P @ [t])) ?F @ [group_of fl (P @ [t]) (symbol t)]"
      by (simp only: b c)
    also have "\<dots> = map (group_of fl (P @ [t])) (first_symbols (map symbol (P @ [t])))"
      by (subst f) simp
    finally show ?thesis .
  qed
qed

lemma py_enumerate_length: "length (py_enumerate i xs) = length xs"
  by (induction xs arbitrary: i) simp_all

lemma py_enumerate_nth:
  "k < length xs \<Longrightarrow> py_enumerate i xs ! k = (i + int k, xs ! k)"
proof (induction xs arbitrary: i k)
  case Nil
  then show ?case by simp
next
  case (Cons x xs)
  then show ?case by (cases k) simp_all
qed

lemma py_enumerate_snd: "map snd (py_enumerate i xs) = xs"
  by (induction xs arbitrary: i) simp_all

lemma ranked_symbols_length: "length (ranked_symbols fl ts) = length (symbol_stats fl ts)"
  by (simp add: ranked_symbols_def py_enumerate_length)

lemma ranked_symbols_rank:
  assumes "k < length (ranked_symbols fl ts)"
  shows "rank (ranked_symbols fl ts ! k) = Some (int k + 1)"
proof -
  let ?o = "sort_key (\<lambda>item. - b_profit item) (symbol_stats fl ts)"
  from assms have k: "k < length ?o" by (simp add: ranked_symbols_def py_enumerate_length)
  then show ?thesis
    by (simp add: ranked_symbols_def py_enumerate_length py_enumerate_nth)
qed

lemma ranked_symbols_profit:
  "map b_profit (ranked_symbols fl ts)
     = map b_profit (sort_key (\<lambda>item. - b_profit item) (symbol_stats fl ts))"
proof -
  let ?o = "sort_key (\<lambda>item. - b_profit item) (symbol_stats fl ts)"
  have "map b_profit (ranked_symbols fl ts) = map (b_profit \<circ> snd) (py_enumerate 1 ?o)"
    by (simp add: ranked_symbols_def case_prod_beta comp_def)
  also have "\<dots> = map b_profit (map snd (py_enumerate 1 ?o))" by simp
  finally show ?thesis by (simp only: py_enumerate_snd)
qed

lemma ranked_symbols_descending: "sorted (map (\<lambda>b. - b_profit b) (ranked_symbols fl ts))"
proof -
  let ?o = "sort_key (\<lambda>item. - b_profit item) (symbol_stats fl ts)"
  have "map (\<lambda>b. - b_profit b) (ranked_symbols fl ts) = map uminus (map b_profit (ranked_symbols fl ts))"
    by (simp add: comp_def)
  also have "\<dots> = map uminus (map b_profit ?o)" by (simp only: ranked_symbols_profit)
  also have "\<dots> = map (\<lambda>b. - b_profit b) ?o" by (simp add: comp_def)
  finally show ?thesis by simp
qed

lemma bump_rank: "rank (bump fl t b) = rank b"
  by (simp add: bump_def)

lemma add_trade_rank:
  "\<forall>b\<in>set bs. rank b = None \<Longrightarrow> \<forall>b\<in>set (add_trade fl t bs). rank b = None"
  by (induction bs) (auto simp: bump_rank)

lemma symbol_stats_rank_aux:
  "\<forall>b\<in>set bs. rank b = None \<Longrightarrow> \<forall>b\<in>set (foldl (\<lambda>stats t. add_trade fl t stats) bs ts). rank b = None"
proof (induction ts arbitrary: bs)
  case Nil
  then show ?case by simp
next
  case (Cons t ts)
  from add_trade_rank[OF Cons.prems] have "\<forall>b\<in>set (add_trade fl t bs). rank b = None" .
  from Cons.IH[OF this] show ?case by simp
qed

lemma symbol_stats_rank: "\<forall>b\<in>set (symbol_stats fl ts). rank b = None"
  unfolding symbol_stats_def by (rule symbol_stats_rank_aux) simp

lemma rank_update_id: "rank b = None \<Longrightarrow> b\<lparr>rank := None\<rparr> = b"
  by (cases b) simp

lemma ranked_symbols_unranked:
  "map (\<lambda>b. b\<lparr>rank := None\<rparr>) (ranked_symbols fl ts)
     = sort_key (\<lambda>item. - b_profit item) (symbol_stats fl ts)"
proof -
  let ?o = "sort_key (\<lambda>item. - b_profit item) (symbol_stats fl ts)"
  have r: "\<forall>b\<in>set ?o. rank b = None" using symbol_stats_rank[of fl ts] by simp
  have "map (\<lambda>b. b\<lparr>rank := None\<rparr>) (ranked_symbols fl ts)
      = map (\<lambda>p. (snd p)\<lparr>rank := None\<rparr>) (py_enumerate 1 ?o)"
    by (simp add: ranked_symbols_def case_prod_beta comp_def)
  also have "\<dots> = map (\<lambda>b. b\<lparr>rank := None\<rparr>) (map snd (py_enumerate 1 ?o))"
    by (simp add: comp_def)
  also have "\<dots> = map (\<lambda>b. b\<lparr>rank := None\<rparr>) ?o" by (simp only: py_enumerate_snd)
  also have "\<dots> = ?o" using r by (intro map_idI) (simp add: rank_update_id)
  finally show ?thesis .
qed

lemma ranked_symbols_stable:
  "filter (\<lambda>b. b_profit b = p) (map (\<lambda>b. b\<lparr>rank := None\<rparr>) (ranked_symbols fl ts))
     = filter (\<lambda>b. b_profit b = p) (symbol_stats fl ts)"
proof -
  have "filter (\<lambda>b. - b_profit b = - p) (sort_key (\<lambda>item. - b_profit item) (symbol_stats fl ts))
      = filter (\<lambda>b. - b_profit b = - p) (symbol_stats fl ts)"
    by (rule sort_key_stable)
  then show ?thesis by (simp add: ranked_symbols_unranked)
qed

lemma ranked_symbols_sorted_rank: "sorted (map rank_key (ranked_symbols fl ts))"
proof -
  have "\<And>i j. i \<le> j \<Longrightarrow> j < length (ranked_symbols fl ts) \<Longrightarrow>
      rank_key (ranked_symbols fl ts ! i) \<le> rank_key (ranked_symbols fl ts ! j)"
    by (simp add: rank_key_def ranked_symbols_rank)
  then show ?thesis by (simp add: sorted_iff_nth_mono)
qed

lemma sort_key_sorted_id: "sorted (map f xs) \<Longrightarrow> sort_key f xs = xs"
  by (induction xs) (auto simp: insort_is_Cons)

lemma bottom_is_slice:
  "sort_key rank_key (drop n (ranked_symbols fl ts)) = drop n (ranked_symbols fl ts)"
proof -
  have "sorted (drop n (map rank_key (ranked_symbols fl ts)))"
    using ranked_symbols_sorted_rank sorted_wrt_drop by blast
  then have "sorted (map rank_key (drop n (ranked_symbols fl ts)))" by (simp add: drop_map)
  then show ?thesis by (rule sort_key_sorted_id)
qed


text \<open>
  Claim C6 (ranking determinism). The groups of \<open>build_symbol_lists\<close>, taken in the order
  in which their symbols are first met, are sorted descending by total profit and then
  numbered 1, 2, ... in that order; groups of equal profit keep their encounter order.
  The top list is the first five ranked groups and the bottom list the last five, which is
  ascending by rank; with at most five groups both lists are all the groups in rank
  order. For the symbols with profits 100, 100 and -50 the ranks are 1, 2 (in encounter
  order) and 3, and both lists hold the three groups in the order 1, 2, 3.
\<close>

text \<open>
  Claim C6. The groups of \<open>build_symbol_lists\<close> are one per symbol, in the order in which
  the symbols first appear, each holding the symbol, the total of the profits of its trades
  added in the order of the list, and the numbers of its trades, wins and losses
  (\<open>group_of\<close>). The ranked list is these groups sorted by total profit, descending; the
  group at position \<open>k\<close> (from 0) has rank \<open>k + 1\<close>; groups of equal profit keep the order in
  which their symbols first appeared. The top list is the first 5 ranked groups, the bottom
  list the last 5, ordered by ascending rank; with at most 5 groups both lists are the whole
  ranked list. The function is a total function of the trade list, so the result is
  determined by it.
\<close>

theorem build_symbol_lists_ranking:
  "symbol_stats fl ts = map (group_of fl ts) (first_symbols (map symbol ts))
   \<and> build_symbol_lists fl ts
     = (take 5 (ranked_symbols fl ts),
        drop (length (ranked_symbols fl ts) - 5) (ranked_symbols fl ts))
   \<and> length (ranked_symbols fl ts) = length (symbol_stats fl ts)
   \<and> (\<forall>k < length (ranked_symbols fl ts). rank (ranked_symbols fl ts ! k) = Some (int k + 1))
   \<and> sorted (map (\<lambda>b. - b_profit b) (ranked_symbols fl ts))
   \<and> (\<forall>p. filter (\<lambda>b. b_profit b = p) (map (\<lambda>b. b\<lparr>rank := None\<rparr>) (ranked_symbols fl ts))
           = filter (\<lambda>b. b_profit b = p) (symbol_stats fl ts))
   \<and> (length (ranked_symbols fl ts) \<le> 5 \<longrightarrow>
         build_symbol_lists fl ts = (ranked_symbols fl ts, ranked_symbols fl ts))
   \<and> sorted (map rank_key (snd (build_symbol_lists fl ts)))"
proof -
  have b: "build_symbol_lists fl ts
     = (take 5 (ranked_symbols fl ts),
        drop (length (ranked_symbols fl ts) - 5) (ranked_symbols fl ts))"
    by (simp add: build_symbol_lists_def Let_def bottom_is_slice)
  have s: "sorted (map rank_key (snd (build_symbol_lists fl ts)))"
    unfolding b using ranked_symbols_sorted_rank[of fl ts] sorted_wrt_drop
    by (fastforce simp: drop_map[symmetric])
  from b s ranked_symbols_length[of fl ts] ranked_symbols_rank[of _ fl ts]
    ranked_symbols_descending[of fl ts] ranked_symbols_stable[of _ fl ts]
    symbol_stats_groups[of fl ts]
  show ?thesis by simp
qed

theorem build_symbol_lists_ranking_witness:
  "build_symbol_lists
      \<lparr>f_sum = sum_list, f_add = (\<lambda>x y. x + y), f_mul = (\<lambda>x y. x * y),
       f_truediv = (\<lambda>a b. of_int a / of_int b), f_round = py_round\<rparr>
      [\<lparr>ticket = PStr ''1'', symbol = PStr ''XAUUSD'', volume = 1 / 2, profit = 60,
        order_type = PStr ''buy'', comment = PNone, opened_at = None,
        closed_at = 1704164645000000, tp_label = PNone, sl_label = PNone,
        exit_reason = PNone\<rparr>,
       \<lparr>ticket = PStr ''2'', symbol = PStr ''EURUSD'', volume = 1 / 2, profit = 100,
        order_type = PStr ''buy'', comment = PNone, opened_at = None,
        closed_at = 1704164646000000, tp_label = PNone, sl_label = PNone,
        exit_reason = PNone\<rparr>,
       \<lparr>ticket = PStr ''3'', symbol = PStr ''XAUUSD'', volume = 1 / 2, profit = 40,
        order_type = PStr ''buy'', comment = PNone, opened_at = None,
        closed_at = 1704164647000000, tp_label = PNone, sl_label = PNone,
        exit_reason = PNone\<rparr>,
       \<lparr>ticket = PStr ''4'', symbol = PStr ''GBPUSD'', volume = 1 / 2, profit = - 50,
        order_type = PStr ''buy'', comment = PNone, opened_at = None,
        closed_at = 1704164648000000, tp_label = PNone, sl_label = PNone,
        exit_reason = PNone\<rparr>]
    = ([\<lparr>b_symbol = PStr ''XAUUSD'', b_profit = 100, b_trades = 2, b_wins = 2, b_losses = 0, rank = Some 1\<rparr>,
        \<lparr>b_symbol = PStr ''EURUSD'', b_profit = 100, b_trades = 1, b_wins = 1, b_losses = 0, rank = Some 2\<rparr>,
        \<lparr>b_symbol = PStr ''GBPUSD'', b_profit = - 50, b_trades = 1, b_wins = 0, b_losses = 1, rank = Some 3\<rparr>],
       [\<lparr>b_symbol = PStr ''XAUUSD'', b_profit = 100, b_trades = 2, b_wins = 2, b_losses = 0, rank = Some 1\<rparr>,
        \<lparr>b_symbol = PStr ''EURUSD'', b_profit = 100, b_trades = 1, b_wins = 1, b_losses = 0, rank = Some 2\<rparr>,
        \<lparr>b_symbol = PStr ''GBPUSD'', b_profit = - 50, b_trades = 1, b_wins = 0, b_losses = 1, rank = Some 3\<rparr>])"
proof -
  let ?fl = "\<lparr>f_sum = sum_list, f_add = (\<lambda>x y. x + y), f_mul = (\<lambda>x y. x * y),
       f_truediv = (\<lambda>a b. of_int a / of_int b), f_round = py_round\<rparr>"
  let ?ts = "[\<lparr>ticket = PStr ''1'', symbol = PStr ''XAUUSD'', volume = 1 / 2, profit = 60,
        order_type = PStr ''buy'', comment = PNone, opened_at = None,
        closed_at = 1704164645000000, tp_label = PNone, sl_label = PNone,
        exit_reason = PNone\<rparr>,
       \<lparr>ticket = PStr ''2'', symbol = PStr ''EURUSD'', volume = 1 / 2, profit = 100,
        order_type = PStr ''buy'', comment = PNone, opened_at = None,
        closed_at = 1704164646000000, tp_label = PNone, sl_label = PNone,
        exit_reason = PNone\<rparr>,
       \<lparr>ticket = PStr ''3'', symbol = PStr ''XAUUSD'', volume = 1 / 2, profit = 40,
        order_type = PStr ''buy'', comment = PNone, opened_at = None,
        closed_at = 1704164647000000, tp_label = PNone, sl_label = PNone,
        exit_reason = PNone\<rparr>,
       \<lparr>ticket = PStr ''4'', symbol = PStr ''GBPUSD'', volume = 1 / 2, profit = - 50,
        order_type = PStr ''buy'', comment = PNone, opened_at = None,
        closed_at = 1704164648000000, tp_label = PNone, sl_label = PNone,
        exit_reason = PNone\<rparr>]"
  have r: "ranked_symbols ?fl ?ts
    = [\<lparr>b_symbol = PStr ''XAUUSD'', b_profit = 100, b_trades = 2, b_wins = 2, b_losses = 0, rank = Some 1\<rparr>,
        \<lparr>b_symbol = PStr ''EURUSD'', b_profit = 100, b_trades = 1, b_wins = 1, b_losses = 0, rank = Some 2\<rparr>,
        \<lparr>b_symbol = PStr ''GBPUSD'', b_profit = - 50, b_trades = 1, b_wins = 0, b_losses = 1, rank = Some 3\<rparr>]"
    by code_simp
  then have "length (ranked_symbols ?fl ?ts) \<le> 5" by simp
  with build_symbol_lists_ranking[of ?fl ?ts]
  have "build_symbol_lists ?fl ?ts = (ranked_symbols ?fl ?ts, ranked_symbols ?fl ?ts)" by blast
  then show ?thesis by (simp only: r)
qed

end
